theory Spec2Isabelle
  imports Complex_Main
begin

section \<open>The rental application's booking routes (app.py)\<close>

text \<open>
  A shallow embedding of the booking routes of \<^verbatim>\<open>app.py\<close>:
  \<^verbatim>\<open>book_property\<close>, \<^verbatim>\<open>owner_approve_request\<close>, \<^verbatim>\<open>owner_reject_request\<close>,
  \<^verbatim>\<open>mark_notification_read\<close> and the helper \<^verbatim>\<open>send_email\<close>.

  The MongoDB collections are lists of documents in insertion order (the order in which
  \<^verbatim>\<open>find_one\<close> and \<^verbatim>\<open>update_one\<close> meet them). A route takes the Flask session and its
  URL arguments, and returns what the client receives together with the new state of the
  collections, of the console and of the mail that left the process.
\<close>

subsection \<open>Documents\<close>

type_synonym objectid = nat
type_synonym datetime = nat

datatype status = PENDING | APPROVED | REJECTED

text \<open>A document of \<^verbatim>\<open>users_col\<close>, as \<^verbatim>\<open>register\<close> inserts it.\<close>

record user =
  u_name :: string
  u_email :: string
  u_password :: string
  u_role :: string

record review =
  r_by :: string
  r_email :: string
  r_rating :: real
  r_comment :: string
  r_created_at :: datetime

text \<open>
  A document of \<^verbatim>\<open>props_col\<close>, as \<^verbatim>\<open>owner_add\<close> inserts it. The keys \<^verbatim>\<open>booked\<close> and
  \<^verbatim>\<open>booked_by\<close> are absent (\<open>None\<close>) until an approval sets them.
\<close>

record property =
  p_id :: objectid
  title :: string
  description :: string
  location :: string
  latitude :: "real option"
  longitude :: "real option"
  price :: real
  rooms :: int
  owner_email :: string
  images :: "string list"
  reviews :: "review list"
  fake :: bool
  p_created_at :: datetime
  booked :: "bool option"
  booked_by :: "string option"

text \<open>A document of \<^verbatim>\<open>bookings_col\<close>, as \<^verbatim>\<open>book_property\<close> inserts it.\<close>

record booking =
  b_id :: objectid
  b_property_id :: objectid
  b_tenant_email :: string
  tenant_name :: string
  b_created_at :: datetime
  b_status :: status

text \<open>
  A document of \<^verbatim>\<open>notifications_col\<close>. \<^verbatim>\<open>book_property\<close> inserts it without the keys
  \<^verbatim>\<open>tenant_email\<close> and \<^verbatim>\<open>booking_id\<close>; the approval and the rejection insert it with them.
\<close>

record notification =
  n_id :: objectid
  n_owner_email :: string
  n_tenant_email :: "string option"
  n_property_id :: objectid
  n_booking_id :: "objectid option"
  message :: string
  timestamp :: datetime
  read :: bool

record email_message =
  e_from :: string
  e_to :: string
  e_subject :: string
  e_body :: string

text \<open>
  The state: the four collections, the lines printed to the console (one entry for each
  call of \<^verbatim>\<open>print\<close>) and the messages an SMTP server accepted.
\<close>

record world =
  users_col :: "user list"
  props_col :: "property list"
  bookings_col :: "booking list"
  notifications_col :: "notification list"
  stdout :: "string list"
  outbox :: "email_message list"

subsection \<open>The session, the responses and the exceptions\<close>

record session =
  user_email :: "string option"
  role :: "string option"

definition is_logged_in :: "session \<Rightarrow> bool" where
  "is_logged_in s = (user_email s \<noteq> None)"

definition role_is :: "session \<Rightarrow> string \<Rightarrow> bool" where
  "role_is s r = (role s = Some r)"

text \<open>The targets of \<^verbatim>\<open>redirect(url_for(...))\<close> in the modelled routes.\<close>

datatype endpoint =
    Url_login
  | Url_owner_dashboard
  | Url_tenant_dashboard
  | Url_owner_requests objectid
  | Url_property_details objectid
  | Url_notifications

text \<open>
  What the client receives: the message and category given to \<^verbatim>\<open>flash\<close> during the
  request, if any, and the target of the redirect.
\<close>

record response =
  flashed :: "(string \<times> string) option"
  redirect :: endpoint

text \<open>
  \<open>ValueError\<close> carries the text of the exception. \<open>InvalidId\<close> is what
  \<^verbatim>\<open>bson.ObjectId\<close> raises on a string that is no object id, \<open>KeyError\<close> what
  \<^verbatim>\<open>session["user_email"]\<close> raises when the session has no such key.
\<close>

datatype exn = ValueError string | InvalidId | KeyError string

fun str_exn :: "exn \<Rightarrow> string" where
  "str_exn (ValueError m) = m"
| "str_exn InvalidId = ''not a valid ObjectId''"
| "str_exn (KeyError k) = k"

subsection \<open>Collection operations\<close>

text \<open>\<^verbatim>\<open>find_one\<close>: the first document that matches the filter.\<close>

fun find_one :: "('a \<Rightarrow> bool) \<Rightarrow> 'a list \<Rightarrow> 'a option" where
  "find_one P [] = None"
| "find_one P (d # ds) = (if P d then Some d else find_one P ds)"

text \<open>\<^verbatim>\<open>update_one\<close>: the first document that matches the filter is updated.\<close>

fun update_one :: "('a \<Rightarrow> bool) \<Rightarrow> ('a \<Rightarrow> 'a) \<Rightarrow> 'a list \<Rightarrow> 'a list" where
  "update_one P f [] = []"
| "update_one P f (d # ds) = (if P d then f d # ds else d # update_one P f ds)"

text \<open>\<^verbatim>\<open>update_many\<close>: every document that matches the filter is updated.\<close>

fun update_many :: "('a \<Rightarrow> bool) \<Rightarrow> ('a \<Rightarrow> 'a) \<Rightarrow> 'a list \<Rightarrow> 'a list" where
  "update_many P f [] = []"
| "update_many P f (d # ds) = (if P d then f d else d) # update_many P f ds"

text \<open>
  \<^verbatim>\<open>insert_one\<close> of a document without \<^verbatim>\<open>_id\<close>: the driver gives it an object id that no
  document of the collection has. The model takes the successor of the largest id in the
  collection.
\<close>

definition new_objectid :: "objectid list \<Rightarrow> objectid" where
  "new_objectid ids = Suc (fold max ids 0)"

subsection \<open>send\_email\<close>

text \<open>
  The environment variable \<^verbatim>\<open>SMTP_PORT\<close> as line 75 reads it: unset or empty, a text
  that \<^verbatim>\<open>int\<close> rejects (with the text of its \<open>ValueError\<close>), or an integer.
\<close>

datatype port_var = Port_unset | Port_invalid string | Port_int int

text \<open>
  The process environment of \<^verbatim>\<open>send_email\<close>. \<open>smtp_attempt\<close> is what the \<^verbatim>\<open>try\<close> block
  of lines 91 to 109 does with a message, over SSL or over STARTTLS: \<open>None\<close> when the
  server took the message, \<open>Some e\<close> when a statement of the block raised an exception
  whose text is \<open>e\<close>.
\<close>

record mailer =
  SMTP_HOST :: "string option"
  SMTP_PORT :: port_var
  SMTP_USER :: "string option"
  SMTP_PASS :: "string option"
  EMAIL_FROM :: "string option"
  smtp_attempt :: "bool \<Rightarrow> email_message \<Rightarrow> string option"

text \<open>Python's truth value of \<^verbatim>\<open>os.environ.get(...)\<close>: set and not empty.\<close>

fun truthy :: "string option \<Rightarrow> bool" where
  "truthy None = False"
| "truthy (Some v) = (v \<noteq> [])"

text \<open>The truth value of \<^verbatim>\<open>smtp_port\<close>: not \<^verbatim>\<open>None\<close> and not 0.\<close>

fun truthy_port :: "int option \<Rightarrow> bool" where
  "truthy_port None = False"
| "truthy_port (Some n) = (n \<noteq> 0)"

text \<open>\<^verbatim>\<open>smtp_port == k\<close>.\<close>

fun is_port :: "int option \<Rightarrow> int \<Rightarrow> bool" where
  "is_port None k = False"
| "is_port (Some n) k = (n = k)"

definition print :: "string \<Rightarrow> world \<Rightarrow> world" where
  "print line w = w\<lparr>stdout := stdout w @ [line]\<rparr>"

text \<open>Line 75: the port, or the \<open>ValueError\<close> of \<^verbatim>\<open>int\<close>.\<close>

fun read_smtp_port :: "port_var \<Rightarrow> exn + int option" where
  "read_smtp_port Port_unset = Inr None"
| "read_smtp_port (Port_invalid e) = Inl (ValueError e)"
| "read_smtp_port (Port_int n) = Inr (Some n)"

text \<open>Line 78: \<^verbatim>\<open>os.environ.get("EMAIL_FROM", smtp_user or "no-reply@example.com")\<close>.\<close>

fun read_email_from :: "string option \<Rightarrow> string option \<Rightarrow> string" where
  "read_email_from (Some v) smtp_user = v"
| "read_email_from None (Some u) = (if u \<noteq> [] then u else ''no-reply@example.com'')"
| "read_email_from None None = ''no-reply@example.com''"

text \<open>Lines 82 to 88: the fallback that prints the message.\<close>

definition print_fallback :: "string \<Rightarrow> string \<Rightarrow> string \<Rightarrow> string \<Rightarrow> world \<Rightarrow> world" where
  "print_fallback to_email email_from subject body w =
     print ''---- End email ----''
    (print body
    (print ''Body:''
    (print (''Subject: '' @ subject)
    (print (''From: '' @ email_from)
    (print (''To: '' @ to_email)
    (print ''---- Email fallback (SMTP not configured) ----'' w))))))"

text \<open>Lines 110 to 114: the handler of the \<^verbatim>\<open>try\<close> block.\<close>

definition print_failure :: "string \<Rightarrow> string \<Rightarrow> string \<Rightarrow> string \<Rightarrow> world \<Rightarrow> world" where
  "print_failure e to_email subject body w =
     print (''To: '' @ to_email @ ''\<newline>Subject: '' @ subject @ ''\<newline>'' @ body)
    (print ''Email contents were:''
    (print (''Failed to send email: '' @ e) w))"

definition send_email :: "mailer \<Rightarrow> string \<Rightarrow> string \<Rightarrow> string \<Rightarrow> world \<Rightarrow> (exn + unit) \<times> world" where
  "send_email m to_email subject body w =
    (case read_smtp_port (SMTP_PORT m) of
       Inl e \<Rightarrow> (Inl e, w)
     | Inr smtp_port \<Rightarrow>
        (let email_from = read_email_from (EMAIL_FROM m) (SMTP_USER m) in
         if \<not> truthy (SMTP_HOST m) \<or> \<not> truthy_port smtp_port
            \<or> \<not> truthy (SMTP_USER m) \<or> \<not> truthy (SMTP_PASS m)
         then (Inr (), print_fallback to_email email_from subject body w)
         else
           (let msg = \<lparr>e_from = email_from, e_to = to_email,
                       e_subject = subject, e_body = body\<rparr> in
            case smtp_attempt m (is_port smtp_port 465) msg of
              None \<Rightarrow> (Inr (), w\<lparr>outbox := outbox w @ [msg]\<rparr>)
            | Some e \<Rightarrow> (Inr (), print_failure e to_email subject body w))))"

text \<open>
  The callers' \<^verbatim>\<open>try: send_email(...) except Exception as e: print(label, e)\<close>.
\<close>

definition try_send_email :: "string \<Rightarrow> mailer \<Rightarrow> string \<Rightarrow> string \<Rightarrow> string \<Rightarrow> world \<Rightarrow> world" where
  "try_send_email label m to_email subject body w =
    (case send_email m to_email subject body w of
       (Inr u, w') \<Rightarrow> w'
     | (Inl e, w') \<Rightarrow> print (label @ '' '' @ str_exn e) w')"

subsection \<open>The routes\<close>

definition flash_redirect :: "string \<Rightarrow> string \<Rightarrow> endpoint \<Rightarrow> response" where
  "flash_redirect msg category target = \<lparr>flashed = Some (msg, category), redirect = target\<rparr>"

definition plain_redirect :: "endpoint \<Rightarrow> response" where
  "plain_redirect target = \<lparr>flashed = None, redirect = target\<rparr>"

text \<open>The f-string fragment \<^verbatim>\<open>'{t}'\<close>: the text between apostrophes.\<close>

abbreviation (input) quoted :: "string \<Rightarrow> string" where
  "quoted t \<equiv> CHR 0x27 # t @ [CHR 0x27]"

text \<open>
  A URL argument that the route gives to \<^verbatim>\<open>ObjectId(...)\<close> is modelled by what
  \<^verbatim>\<open>ObjectId\<close> makes of it: \<open>Some oid\<close>, or \<open>None\<close> where it raises \<open>InvalidId\<close>.
  \<^verbatim>\<open>datetime.utcnow()\<close> is an argument of the route, one for each call. Every property
  document has a title, so \<^verbatim>\<open>prop.get('title', 'Property')\<close> is the title.
\<close>

text \<open>\<^verbatim>\<open>book_property\<close>, lines 413 to 463.\<close>

definition book_property ::
  "mailer \<Rightarrow> session \<Rightarrow> objectid option \<Rightarrow> datetime \<Rightarrow> datetime \<Rightarrow> world
     \<Rightarrow> (exn + response) \<times> world" where
  "book_property m s property_id now1 now2 w =
    (if \<not> is_logged_in s \<or> \<not> role_is s ''tenant'' then (Inr (plain_redirect Url_login), w)
     else case user_email s of
       None \<Rightarrow> (Inl (KeyError ''user_email''), w)
     | Some me \<Rightarrow>
     (case (case property_id of
              None \<Rightarrow> None
            | Some pid \<Rightarrow> find_one (\<lambda>p. p_id p = pid) (props_col w)) of
       None \<Rightarrow> (Inr (flash_redirect ''Property not found.'' ''danger'' Url_tenant_dashboard), w)
     | Some prop \<Rightarrow>
        (let tenant = find_one (\<lambda>u. u_email u = me) (users_col w);
             tname = (case tenant of Some t \<Rightarrow> u_name t | None \<Rightarrow> me);
             booking_doc = \<lparr>b_id = new_objectid (map b_id (bookings_col w)),
                            b_property_id = p_id prop,
                            b_tenant_email = me,
                            tenant_name = tname,
                            b_created_at = now1,
                            b_status = PENDING\<rparr>;
             w1 = w\<lparr>bookings_col := bookings_col w @ [booking_doc]\<rparr>;
             notif = \<lparr>n_id = new_objectid (map n_id (notifications_col w1)),
                      n_owner_email = owner_email prop,
                      n_tenant_email = None,
                      n_property_id = p_id prop,
                      n_booking_id = None,
                      message = ''New booking request from '' @ tname @ '' ('' @ me
                                @ '') for '' @ quoted (title prop),
                      timestamp = now2,
                      read = False\<rparr>;
             w2 = w1\<lparr>notifications_col := notifications_col w1 @ [notif]\<rparr>;
             w3 = (case find_one (\<lambda>u. u_email u = owner_email prop) (users_col w2) of
                     None \<Rightarrow> w2
                   | Some owner \<Rightarrow>
                       if u_email owner = [] then w2
                       else try_send_email ''Email error (owner notify):'' m
                              (u_email owner)
                              (''New booking request for '' @ quoted (title prop))
                              (''Hello '' @ u_name owner
                               @ '',\<newline>\<newline>You have a new booking request from ''
                               @ tname @ '' ('' @ me @ '') for your property ''
                               @ quoted (title prop)
                               @ ''.\<newline>\<newline>Log in to the dashboard to approve or reject the request.\<newline>\<newline>Thanks,\<newline>Rental App'')
                              w2)
         in (Inr (flash_redirect ''Booking request sent. The owner will review it.'' ''success''
                    (Url_property_details (p_id prop))), w3))))"

text \<open>\<^verbatim>\<open>owner_approve_request\<close>, lines 512 to 568.\<close>

definition owner_approve_request ::
  "mailer \<Rightarrow> session \<Rightarrow> objectid option \<Rightarrow> datetime \<Rightarrow> world \<Rightarrow> (exn + response) \<times> world" where
  "owner_approve_request m s booking_id now w =
    (if \<not> is_logged_in s \<or> \<not> role_is s ''owner'' then (Inr (plain_redirect Url_login), w)
     else case booking_id of
       None \<Rightarrow> (Inl InvalidId, w)
     | Some bid \<Rightarrow>
     (case find_one (\<lambda>b. b_id b = bid) (bookings_col w) of
       None \<Rightarrow> (Inr (flash_redirect ''Booking not found.'' ''danger'' Url_owner_dashboard), w)
     | Some booking \<Rightarrow>
     (case user_email s of
       None \<Rightarrow> (Inl (KeyError ''user_email''), w)
     | Some me \<Rightarrow>
     (case find_one (\<lambda>p. p_id p = b_property_id booking \<and> owner_email p = me) (props_col w) of
       None \<Rightarrow> (Inr (flash_redirect ''You are not authorized to approve this booking.'' ''danger''
                       Url_owner_dashboard), w)
     | Some prop \<Rightarrow>
     (case find_one (\<lambda>b. b_property_id b = b_property_id booking \<and> b_status b = APPROVED)
             (bookings_col w) of
       Some existing_approved \<Rightarrow>
         (Inr (flash_redirect ''This property is already booked by someone else.'' ''warning''
                 (Url_owner_requests (b_property_id booking))), w)
     | None \<Rightarrow>
        (let w1 = w\<lparr>bookings_col :=
                      update_one (\<lambda>b. b_id b = b_id booking) (\<lambda>b. b\<lparr>b_status := APPROVED\<rparr>)
                        (bookings_col w)\<rparr>;
             w2 = w1\<lparr>props_col :=
                       update_one (\<lambda>p. p_id p = b_property_id booking)
                         (\<lambda>p. p\<lparr>booked := Some True, booked_by := Some (b_tenant_email booking)\<rparr>)
                         (props_col w1)\<rparr>;
             w3 = w2\<lparr>bookings_col :=
                       update_many
                         (\<lambda>b. b_property_id b = b_property_id booking \<and> b_status b = PENDING
                              \<and> b_id b \<noteq> b_id booking)
                         (\<lambda>b. b\<lparr>b_status := REJECTED\<rparr>)
                         (bookings_col w2)\<rparr>;
             notif = \<lparr>n_id = new_objectid (map n_id (notifications_col w3)),
                      n_owner_email = me,
                      n_tenant_email = Some (b_tenant_email booking),
                      n_property_id = b_property_id booking,
                      n_booking_id = Some (b_id booking),
                      message = ''Your booking for '' @ quoted (title prop)
                                @ '' has been APPROVED by the owner.'',
                      timestamp = now,
                      read = False\<rparr>;
             w4 = w3\<lparr>notifications_col := notifications_col w3 @ [notif]\<rparr>;
             w5 = try_send_email ''Email error (tenant notify approve):'' m
                    (b_tenant_email booking)
                    (''Your booking for '' @ quoted (title prop) @ '' is APPROVED'')
                    (''Hello '' @ tenant_name booking
                     @ '',\<newline>\<newline>Your booking for the property '' @ quoted (title prop)
                     @ '' has been APPROVED by the owner ('' @ me
                     @ '').\<newline>\<newline>Please contact the owner to finalize details.\<newline>\<newline>Thanks,\<newline>Rental App'')
                    w4
         in (Inr (flash_redirect
                    ''Booking approved. Other pending requests (if any) were rejected.''
                    ''success'' (Url_owner_requests (b_property_id booking))), w5)))))))"

text \<open>\<^verbatim>\<open>owner_reject_request\<close>, lines 571 to 611.\<close>

definition owner_reject_request ::
  "mailer \<Rightarrow> session \<Rightarrow> objectid option \<Rightarrow> datetime \<Rightarrow> world \<Rightarrow> (exn + response) \<times> world" where
  "owner_reject_request m s booking_id now w =
    (if \<not> is_logged_in s \<or> \<not> role_is s ''owner'' then (Inr (plain_redirect Url_login), w)
     else case booking_id of
       None \<Rightarrow> (Inl InvalidId, w)
     | Some bid \<Rightarrow>
     (case find_one (\<lambda>b. b_id b = bid) (bookings_col w) of
       None \<Rightarrow> (Inr (flash_redirect ''Booking not found.'' ''danger'' Url_owner_dashboard), w)
     | Some booking \<Rightarrow>
     (case user_email s of
       None \<Rightarrow> (Inl (KeyError ''user_email''), w)
     | Some me \<Rightarrow>
     (case find_one (\<lambda>p. p_id p = b_property_id booking \<and> owner_email p = me) (props_col w) of
       None \<Rightarrow> (Inr (flash_redirect ''You are not authorized to reject this booking.'' ''danger''
                       Url_owner_dashboard), w)
     | Some prop \<Rightarrow>
        (let w1 = w\<lparr>bookings_col :=
                      update_one (\<lambda>b. b_id b = b_id booking) (\<lambda>b. b\<lparr>b_status := REJECTED\<rparr>)
                        (bookings_col w)\<rparr>;
             notif = \<lparr>n_id = new_objectid (map n_id (notifications_col w1)),
                      n_owner_email = me,
                      n_tenant_email = Some (b_tenant_email booking),
                      n_property_id = b_property_id booking,
                      n_booking_id = Some (b_id booking),
                      message = ''Your booking for '' @ quoted (title prop)
                                @ '' has been REJECTED by the owner.'',
                      timestamp = now,
                      read = False\<rparr>;
             w2 = w1\<lparr>notifications_col := notifications_col w1 @ [notif]\<rparr>;
             w3 = try_send_email ''Email error (tenant notify reject):'' m
                    (b_tenant_email booking)
                    (''Your booking for '' @ quoted (title prop) @ '' was REJECTED'')
                    (''Hello '' @ tenant_name booking
                     @ '',\<newline>\<newline>Your booking for the property '' @ quoted (title prop)
                     @ '' has been rejected by the owner ('' @ me
                     @ '').\<newline>\<newline>You can try other listings.\<newline>\<newline>Thanks,\<newline>Rental App'')
                    w2
         in (Inr (flash_redirect ''Booking rejected.'' ''info''
                    (Url_owner_requests (b_property_id booking))), w3))))))"

text \<open>
  \<^verbatim>\<open>mark_notification_read\<close>, lines 632 to 640. An \<open>InvalidId\<close> is caught by the
  \<^verbatim>\<open>try\<close> block around the update.
\<close>

definition mark_notification_read ::
  "session \<Rightarrow> objectid option \<Rightarrow> world \<Rightarrow> (exn + response) \<times> world" where
  "mark_notification_read s notif_id w =
    (if \<not> is_logged_in s then (Inr (plain_redirect Url_login), w)
     else
       (let w1 = (case notif_id of
                    None \<Rightarrow> w
                  | Some nid \<Rightarrow>
                      w\<lparr>notifications_col :=
                          update_one (\<lambda>n. n_id n = nid) (\<lambda>n. n\<lparr>read := True\<rparr>)
                            (notifications_col w)\<rparr>)
        in (Inr (plain_redirect Url_notifications), w1)))"

subsection \<open>Serving a sequence of requests\<close>

text \<open>
  The requests of the booking lifecycle, each with the session of its caller, its URL
  argument, the clock readings of its handler and the mail environment at that moment.
\<close>

datatype request =
    RequestBooking mailer session "objectid option" datetime datetime
  | ApproveBooking mailer session "objectid option" datetime
  | RejectBooking mailer session "objectid option" datetime

fun handle :: "request \<Rightarrow> world \<Rightarrow> (exn + response) \<times> world" where
  "handle (RequestBooking m s property_id now1 now2) w = book_property m s property_id now1 now2 w"
| "handle (ApproveBooking m s booking_id now) w = owner_approve_request m s booking_id now w"
| "handle (RejectBooking m s booking_id now) w = owner_reject_request m s booking_id now w"

text \<open>The server handles the requests one after the other; an exception ends one request only.\<close>

fun serve :: "request list \<Rightarrow> world \<Rightarrow> world" where
  "serve [] w = w"
| "serve (r # rs) w = serve rs (snd (handle r w))"

subsection \<open>Notions of the specification\<close>

text \<open>The outcomes of the routes that the specification names.\<close>

abbreviation (input) BookingRequested :: "objectid \<Rightarrow> exn + response" where
  "BookingRequested p \<equiv>
     Inr (flash_redirect ''Booking request sent. The owner will review it.'' ''success''
            (Url_property_details p))"

abbreviation (input) BookingApproved :: "objectid \<Rightarrow> exn + response" where
  "BookingApproved p \<equiv>
     Inr (flash_redirect ''Booking approved. Other pending requests (if any) were rejected.''
            ''success'' (Url_owner_requests p))"

abbreviation (input) BookingRejected :: "objectid \<Rightarrow> exn + response" where
  "BookingRejected p \<equiv> Inr (flash_redirect ''Booking rejected.'' ''info'' (Url_owner_requests p))"

abbreviation (input) PropertyAlreadyBooked :: "objectid \<Rightarrow> exn + response" where
  "PropertyAlreadyBooked p \<equiv>
     Inr (flash_redirect ''This property is already booked by someone else.'' ''warning''
            (Url_owner_requests p))"

abbreviation (input) NotAuthorizedApprove :: "exn + response" where
  "NotAuthorizedApprove \<equiv>
     Inr (flash_redirect ''You are not authorized to approve this booking.'' ''danger''
            Url_owner_dashboard)"

abbreviation (input) NotAuthorizedReject :: "exn + response" where
  "NotAuthorizedReject \<equiv>
     Inr (flash_redirect ''You are not authorized to reject this booking.'' ''danger''
            Url_owner_dashboard)"

text \<open>\<open>findApproved\<close>: the query of line 529.\<close>

definition findApproved :: "objectid \<Rightarrow> booking list \<Rightarrow> booking option" where
  "findApproved p bs = find_one (\<lambda>b. b_property_id b = p \<and> b_status b = APPROVED) bs"

text \<open>The APPROVED bookings of a property.\<close>

definition approved_bookings :: "objectid \<Rightarrow> world \<Rightarrow> booking list" where
  "approved_bookings p w =
     filter (\<lambda>b. b_property_id b = p \<and> b_status b = APPROVED) (bookings_col w)"

text \<open>The caller owns the property with this id.\<close>

definition owns :: "session \<Rightarrow> objectid \<Rightarrow> world \<Rightarrow> bool" where
  "owns s p w =
     (case user_email s of
        None \<Rightarrow> False
      | Some me \<Rightarrow> list_ex (\<lambda>d. p_id d = p \<and> owner_email d = me) (props_col w))"

text \<open>The persisted state: the four collections.\<close>

definition persisted ::
  "world \<Rightarrow> user list \<times> property list \<times> booking list \<times> notification list" where
  "persisted w = (users_col w, props_col w, bookings_col w, notifications_col w)"

text \<open>
  Two property documents that differ at most in the keys \<^verbatim>\<open>booked\<close> and \<^verbatim>\<open>booked_by\<close>.
\<close>

definition same_but_booked :: "property \<Rightarrow> property \<Rightarrow> bool" where
  "same_but_booked p p' = (p'\<lparr>booked := booked p, booked_by := booked_by p\<rparr> = p)"

text \<open>The identities that the route \<^verbatim>\<open>notifications\<close> (line 624) shows a notification to.\<close>

definition recipients :: "notification \<Rightarrow> string list" where
  "recipients n = n_owner_email n # (case n_tenant_email n of None \<Rightarrow> [] | Some t \<Rightarrow> [t])"

subsection \<open>A small installation\<close>

text \<open>
  One owner, two tenants, one property. The mail environment \<open>no_smtp\<close> has no SMTP
  settings; \<open>smtp_down\<close> has them and a server that refuses every message; \<open>smtp_up\<close>
  has a server that takes every message.
\<close>

definition flat :: property where
  "flat = \<lparr>p_id = 1, title = ''Flat'', description = ''Two rooms'', location = ''Park Street'',
           latitude = None, longitude = None, price = 9000, rooms = 2, owner_email = ''o@x'',
           images = [], reviews = [], fake = False, p_created_at = 0,
           booked = None, booked_by = None\<rparr>"

definition people :: "user list" where
  "people = [\<lparr>u_name = ''Olga'', u_email = ''o@x'', u_password = ''h1'', u_role = ''owner''\<rparr>,
             \<lparr>u_name = ''Tom'', u_email = ''t1@x'', u_password = ''h2'', u_role = ''tenant''\<rparr>,
             \<lparr>u_name = ''Tina'', u_email = ''t2@x'', u_password = ''h3'', u_role = ''tenant''\<rparr>]"

definition olga :: session where
  "olga = \<lparr>user_email = Some ''o@x'', role = Some ''owner''\<rparr>"

definition otto :: session where
  "otto = \<lparr>user_email = Some ''o2@x'', role = Some ''owner''\<rparr>"

definition tom :: session where
  "tom = \<lparr>user_email = Some ''t1@x'', role = Some ''tenant''\<rparr>"

definition tina :: session where
  "tina = \<lparr>user_email = Some ''t2@x'', role = Some ''tenant''\<rparr>"

definition no_smtp :: mailer where
  "no_smtp = \<lparr>SMTP_HOST = None, SMTP_PORT = Port_unset, SMTP_USER = None, SMTP_PASS = None,
              EMAIL_FROM = None, smtp_attempt = (\<lambda>ssl msg. None)\<rparr>"

definition smtp_down :: mailer where
  "smtp_down = \<lparr>SMTP_HOST = Some ''mail'', SMTP_PORT = Port_int 465, SMTP_USER = Some ''app'',
                SMTP_PASS = Some ''pw'', EMAIL_FROM = None,
                smtp_attempt = (\<lambda>ssl msg. Some ''Connection refused'')\<rparr>"

definition smtp_up :: mailer where
  "smtp_up = \<lparr>SMTP_HOST = Some ''mail'', SMTP_PORT = Port_int 587, SMTP_USER = Some ''app'',
              SMTP_PASS = Some ''pw'', EMAIL_FROM = None, smtp_attempt = (\<lambda>ssl msg. None)\<rparr>"

definition booking_of :: "objectid \<Rightarrow> string \<Rightarrow> string \<Rightarrow> status \<Rightarrow> booking" where
  "booking_of i t n st = \<lparr>b_id = i, b_property_id = 1, b_tenant_email = t, tenant_name = n,
                          b_created_at = 10 * i, b_status = st\<rparr>"

definition request_notice :: notification where
  "request_notice = \<lparr>n_id = 1, n_owner_email = ''o@x'', n_tenant_email = None,
                     n_property_id = 1, n_booking_id = None, message = ''New booking request'',
                     timestamp = 11, read = False\<rparr>"

text \<open>The installation with the given bookings of the flat and one unread notice to the owner.\<close>

definition installation :: "booking list \<Rightarrow> world" where
  "installation bs = \<lparr>users_col = people, props_col = [flat], bookings_col = bs,
                      notifications_col = [request_notice], stdout = [], outbox = []\<rparr>"

section \<open>Properties\<close>

subsection \<open>Mail leaves the collections alone\<close>

lemma persisted_print: "persisted (print l w) = persisted w"
  by (simp add: persisted_def print_def)

lemma persisted_print_fallback: "persisted (print_fallback t f sb bd w) = persisted w"
  by (simp add: print_fallback_def persisted_print)

lemma persisted_print_failure: "persisted (print_failure e t sb bd w) = persisted w"
  by (simp add: print_failure_def persisted_print)

lemma persisted_outbox: "persisted (w\<lparr>outbox := ob\<rparr>) = persisted w"
  by (simp add: persisted_def)

lemma persisted_send_email: "persisted (snd (send_email m t sb bd w)) = persisted w"
  by (simp add: send_email_def Let_def persisted_print_fallback persisted_print_failure
        persisted_outbox split: sum.splits option.splits)

lemma persisted_try_send_email: "persisted (try_send_email l m t sb bd w) = persisted w"
proof -
  obtain r w' where sw: "send_email m t sb bd w = (r, w')"
    by (cases "send_email m t sb bd w")
  then have "persisted w' = persisted w"
    using persisted_send_email [of m t sb bd w] by simp
  with sw show ?thesis
    by (cases r) (simp_all add: try_send_email_def persisted_print)
qed

lemma try_send_email_cols:
  "users_col (try_send_email l m t sb bd w) = users_col w"
  "props_col (try_send_email l m t sb bd w) = props_col w"
  "bookings_col (try_send_email l m t sb bd w) = bookings_col w"
  "notifications_col (try_send_email l m t sb bd w) = notifications_col w"
  using persisted_try_send_email [of l m t sb bd w] by (simp_all add: persisted_def)

subsection \<open>Collections\<close>

lemma find_one_Some: "find_one P ds = Some d \<Longrightarrow> P d \<and> d \<in> set ds"
  by (induction ds) (auto split: if_splits)

lemma find_one_None: "find_one P ds = None \<longleftrightarrow> (\<forall>d\<in>set ds. \<not> P d)"
  by (induction ds) auto

lemma length_update_one: "length (update_one P f ds) = length ds"
  by (induction ds) auto

lemma length_update_many: "length (update_many P f ds) = length ds"
  by (induction ds) auto

lemma update_many_map: "update_many P f ds = map (\<lambda>d. if P d then f d else d) ds"
  by (induction ds) auto

lemma update_one_None: "find_one P ds = None \<Longrightarrow> update_one P f ds = ds"
  by (induction ds) (auto split: if_splits)

lemma nth_update_one_other:
  "i < length ds \<Longrightarrow> \<not> P (ds ! i) \<Longrightarrow> update_one P f ds ! i = ds ! i"
proof (induction ds arbitrary: i)
  case Nil
  then show ?case by simp
next
  case (Cons d ds)
  then show ?case by (cases i) auto
qed




lemma filter_update_one_same:
  "find_one P ds = Some d \<Longrightarrow> \<not> Q d \<Longrightarrow> \<not> Q (f d) \<Longrightarrow>
   filter Q (update_one P f ds) = filter Q ds"
  by (induction ds) (auto split: if_splits)

lemma filter_update_one_le:
  "(\<And>d. \<not> Q (f d)) \<Longrightarrow> length (filter Q (update_one P f ds)) \<le> length (filter Q ds)"
  by (induction ds) auto

lemma filter_update_one_fresh:
  "filter Q ds = [] \<Longrightarrow> length (filter Q (update_one P f ds)) \<le> 1"
  by (induction ds) (auto split: if_splits)

lemma filter_update_many_same:
  "(\<And>d. P d \<Longrightarrow> \<not> Q d \<and> \<not> Q (f d)) \<Longrightarrow> filter Q (update_many P f ds) = filter Q ds"
  by (induction ds) auto

lemma new_objectid_fresh: "new_objectid ids \<notin> set ids"
proof -
  have le: "\<And>k. \<forall>i\<in>set ids. i \<le> fold max ids k"
  proof (induction ids)
    case Nil
    then show ?case by simp
  next
    case (Cons a ids)
    have mono: "\<And>js (k::nat). k \<le> fold max js k"
    proof -
      fix js and k :: nat
      show "k \<le> fold max js k"
      proof (induction js arbitrary: k)
        case Nil
        then show ?case by simp
      next
        case (Cons j js)
        have "k \<le> max j k" by simp
        also have "\<dots> \<le> fold max js (max j k)" by (rule Cons.IH)
        finally show ?case by simp
      qed
    qed
    have "a \<le> max a k" by simp
    also have "\<dots> \<le> fold max ids (max a k)" by (rule mono)
    finally have "a \<le> fold max (a # ids) k" by simp
    moreover have "\<forall>i\<in>set ids. i \<le> fold max (a # ids) k"
      using Cons.IH [of "max a k"] by simp
    ultimately show ?case by simp
  qed
  show ?thesis
  proof
    assume "new_objectid ids \<in> set ids"
    with le [of 0] have "new_objectid ids \<le> fold max ids 0" by blast
    then show False by (simp add: new_objectid_def)
  qed
qed

subsection \<open>What each route does\<close>

lemma book_property_cases:
  assumes "book_property m s pid now1 now2 w = (r, w')"
  shows "(w' = w \<and> (\<forall>p. r \<noteq> BookingRequested p)) \<or>
     (\<exists>me prop x tname msg.
        user_email s = Some me \<and> role s = Some ''tenant'' \<and> pid = Some x \<and>
        find_one (\<lambda>p. p_id p = x) (props_col w) = Some prop \<and>
        tname = (case find_one (\<lambda>u. u_email u = me) (users_col w) of
                   Some t \<Rightarrow> u_name t | None \<Rightarrow> me) \<and>
        r = BookingRequested (p_id prop) \<and>
        users_col w' = users_col w \<and> props_col w' = props_col w \<and>
        bookings_col w' = bookings_col w @
          [\<lparr>b_id = new_objectid (map b_id (bookings_col w)), b_property_id = p_id prop,
            b_tenant_email = me, tenant_name = tname, b_created_at = now1,
            b_status = PENDING\<rparr>] \<and>
        notifications_col w' = notifications_col w @
          [\<lparr>n_id = new_objectid (map n_id (notifications_col w)),
            n_owner_email = owner_email prop, n_tenant_email = None,
            n_property_id = p_id prop, n_booking_id = None, message = msg,
            timestamp = now2, read = False\<rparr>])"
  using assms
  by (auto simp add: book_property_def Let_def try_send_email_cols is_logged_in_def role_is_def
        flash_redirect_def plain_redirect_def
        split: option.splits if_splits)

lemma owner_approve_request_cases:
  assumes "owner_approve_request m s bid now w = (r, w')"
  shows "(w' = w \<and> (\<forall>p. r \<noteq> BookingApproved p)) \<or>
     (\<exists>me x booking prop msg.
        user_email s = Some me \<and> role s = Some ''owner'' \<and> bid = Some x \<and>
        find_one (\<lambda>b. b_id b = x) (bookings_col w) = Some booking \<and>
        find_one (\<lambda>p. p_id p = b_property_id booking \<and> owner_email p = me) (props_col w)
          = Some prop \<and>
        findApproved (b_property_id booking) (bookings_col w) = None \<and>
        r = BookingApproved (b_property_id booking) \<and>
        users_col w' = users_col w \<and>
        props_col w' =
          update_one (\<lambda>p. p_id p = b_property_id booking)
            (\<lambda>p. p\<lparr>booked := Some True, booked_by := Some (b_tenant_email booking)\<rparr>)
            (props_col w) \<and>
        bookings_col w' =
          update_many
            (\<lambda>b. b_property_id b = b_property_id booking \<and> b_status b = PENDING
                 \<and> b_id b \<noteq> b_id booking)
            (\<lambda>b. b\<lparr>b_status := REJECTED\<rparr>)
            (update_one (\<lambda>b. b_id b = b_id booking) (\<lambda>b. b\<lparr>b_status := APPROVED\<rparr>)
               (bookings_col w)) \<and>
        notifications_col w' = notifications_col w @
          [\<lparr>n_id = new_objectid (map n_id (notifications_col w)),
            n_owner_email = me, n_tenant_email = Some (b_tenant_email booking),
            n_property_id = b_property_id booking, n_booking_id = Some (b_id booking),
            message = msg, timestamp = now, read = False\<rparr>])"
  using assms
  by (auto simp add: owner_approve_request_def Let_def try_send_email_cols is_logged_in_def
        role_is_def flash_redirect_def plain_redirect_def findApproved_def
        split: option.splits if_splits)

lemma owner_reject_request_cases:
  assumes "owner_reject_request m s bid now w = (r, w')"
  shows "(w' = w \<and> (\<forall>p. r \<noteq> BookingRejected p)) \<or>
     (\<exists>me x booking prop msg.
        user_email s = Some me \<and> role s = Some ''owner'' \<and> bid = Some x \<and>
        find_one (\<lambda>b. b_id b = x) (bookings_col w) = Some booking \<and>
        find_one (\<lambda>p. p_id p = b_property_id booking \<and> owner_email p = me) (props_col w)
          = Some prop \<and>
        r = BookingRejected (b_property_id booking) \<and>
        users_col w' = users_col w \<and>
        props_col w' = props_col w \<and>
        bookings_col w' =
          update_one (\<lambda>b. b_id b = b_id booking) (\<lambda>b. b\<lparr>b_status := REJECTED\<rparr>)
            (bookings_col w) \<and>
        notifications_col w' = notifications_col w @
          [\<lparr>n_id = new_objectid (map n_id (notifications_col w)),
            n_owner_email = me, n_tenant_email = Some (b_tenant_email booking),
            n_property_id = b_property_id booking, n_booking_id = Some (b_id booking),
            message = msg, timestamp = now, read = False\<rparr>])"
  using assms
  by (auto simp add: owner_reject_request_def Let_def try_send_email_cols is_logged_in_def
        role_is_def flash_redirect_def plain_redirect_def
        split: option.splits if_splits)

subsection \<open>Exclusivity\<close>

lemma approved_bookings_append_pending:
  "bookings_col w' = bookings_col w @ [b] \<Longrightarrow> b_status b = PENDING \<Longrightarrow>
   approved_bookings p w' = approved_bookings p w"
  by (simp add: approved_bookings_def)

lemma findApproved_None_iff: "findApproved p (bookings_col w) = None \<longleftrightarrow> approved_bookings p w = []"
  by (auto simp add: findApproved_def approved_bookings_def find_one_None filter_empty_conv)

lemma book_property_exclusive:
  assumes "length (approved_bookings p w) \<le> 1"
  shows "length (approved_bookings p (snd (book_property m s pid now1 now2 w))) \<le> 1"
proof -
  obtain r w' where run: "book_property m s pid now1 now2 w = (r, w')"
    by (cases "book_property m s pid now1 now2 w")
  from book_property_cases [OF run] have "approved_bookings p w' = approved_bookings p w"
    by (auto intro: approved_bookings_append_pending)
  with assms run show ?thesis by simp
qed

lemma owner_reject_request_exclusive:
  assumes "length (approved_bookings p w) \<le> 1"
  shows "length (approved_bookings p (snd (owner_reject_request m s bid now w))) \<le> 1"
proof -
  obtain r w' where run: "owner_reject_request m s bid now w = (r, w')"
    by (cases "owner_reject_request m s bid now w")
  from owner_reject_request_cases [OF run]
  have "length (approved_bookings p w') \<le> length (approved_bookings p w)"
  proof (elim disjE exE conjE)
    assume "w' = w"
    then show ?thesis by simp
  next
    fix me x booking pdoc msg
    assume "bookings_col w' =
      update_one (\<lambda>b. b_id b = b_id booking) (\<lambda>b. b\<lparr>b_status := REJECTED\<rparr>) (bookings_col w)"
    then show ?thesis
      by (simp add: approved_bookings_def filter_update_one_le)
  qed
  with assms run show ?thesis by simp
qed

lemma owner_approve_request_exclusive:
  assumes "length (approved_bookings p w) \<le> 1"
  shows "length (approved_bookings p (snd (owner_approve_request m s bid now w))) \<le> 1"
proof -
  obtain r w' where run: "owner_approve_request m s bid now w = (r, w')"
    by (cases "owner_approve_request m s bid now w")
  let ?Q = "\<lambda>b. b_property_id b = p \<and> b_status b = APPROVED"
  from owner_approve_request_cases [OF run]
  have "length (approved_bookings p w') \<le> 1"
  proof (elim disjE exE conjE)
    assume "w' = w"
    with assms show ?thesis by simp
  next
    fix me x booking pdoc msg
    assume found: "find_one (\<lambda>b. b_id b = x) (bookings_col w) = Some booking"
      and free: "findApproved (b_property_id booking) (bookings_col w) = None"
      and after: "bookings_col w' =
        update_many
          (\<lambda>b. b_property_id b = b_property_id booking \<and> b_status b = PENDING
               \<and> b_id b \<noteq> b_id booking)
          (\<lambda>b. b\<lparr>b_status := REJECTED\<rparr>)
          (update_one (\<lambda>b. b_id b = b_id booking) (\<lambda>b. b\<lparr>b_status := APPROVED\<rparr>)
             (bookings_col w))"
    let ?one = "update_one (\<lambda>b. b_id b = b_id booking) (\<lambda>b. b\<lparr>b_status := APPROVED\<rparr>)
                  (bookings_col w)"
    have many: "filter ?Q (bookings_col w') = filter ?Q ?one"
      unfolding after by (rule filter_update_many_same) simp
    from found have x: "b_id booking = x"
      by (auto dest: find_one_Some)
    show ?thesis
    proof (cases "p = b_property_id booking")
      case True
      with free have "filter ?Q (bookings_col w) = []"
        by (simp add: findApproved_None_iff approved_bookings_def)
      then have "length (filter ?Q ?one) \<le> 1"
        by (rule filter_update_one_fresh)
      with many show ?thesis by (simp add: approved_bookings_def)
    next
      case False
      with found x have "filter ?Q ?one = filter ?Q (bookings_col w)"
        by (intro filter_update_one_same [where d = booking]) auto
      with many assms show ?thesis by (simp add: approved_bookings_def)
    qed
  qed
  with run show ?thesis by simp
qed

lemma handle_exclusive:
  assumes "length (approved_bookings p w) \<le> 1"
  shows "length (approved_bookings p (snd (handle r w))) \<le> 1"
proof (cases r)
  case (RequestBooking m s pid now1 now2)
  with book_property_exclusive [OF assms] show ?thesis by simp
next
  case (ApproveBooking m s bid now)
  with owner_approve_request_exclusive [OF assms] show ?thesis by simp
next
  case (RejectBooking m s bid now)
  with owner_reject_request_exclusive [OF assms] show ?thesis by simp
qed

lemma serve_exclusive:
  "length (approved_bookings p w) \<le> 1 \<Longrightarrow> length (approved_bookings p (serve rs w)) \<le> 1"
proof (induction rs arbitrary: w)
  case Nil
  then show ?case by simp
next
  case (Cons r rs)
  from Cons.prems have "length (approved_bookings p (snd (handle r w))) \<le> 1"
    by (rule handle_exclusive)
  from Cons.IH [OF this] show ?case by simp
qed

lemma owner_approve_request_refuses:
  assumes "approved_bookings (b_property_id b) w \<noteq> []"
    and "find_one (\<lambda>d. b_id d = x) (bookings_col w) = Some b"
  shows "snd (owner_approve_request m s (Some x) now w) = w"
proof -
  obtain r w' where run: "owner_approve_request m s (Some x) now w = (r, w')"
    by (cases "owner_approve_request m s (Some x) now w")
  from owner_approve_request_cases [OF run] assms have "w' = w"
    by (auto simp add: findApproved_None_iff)
  with run show ?thesis by simp
qed

text \<open>
  Claim C1 (invariant I1, exclusivity). Starting from a state where a property has at most one
  APPROVED booking (in particular none), after the server has handled any sequence of booking
  requests, approvals and rejections, one after the other, the property has at most one
  APPROVED booking. In particular an approval of a booking whose property has an APPROVED
  booking changes nothing.
\<close>

theorem exclusivity:
  "(length (approved_bookings p w) \<le> 1 \<longrightarrow> length (approved_bookings p (serve rs w)) \<le> 1) \<and>
   (find_one (\<lambda>d. b_id d = x) (bookings_col w) = Some b \<and>
    approved_bookings (b_property_id b) w \<noteq> [] \<longrightarrow>
      snd (owner_approve_request m s (Some x) now w) = w)"
  using serve_exclusive [of p w rs] owner_approve_request_refuses [of b w x m s now]
  by blast

theorem exclusivity_witness:
  "approved_bookings 1 (installation [booking_of 1 ''t1@x'' ''Tom'' APPROVED,
                                      booking_of 2 ''t2@x'' ''Tina'' PENDING]) =
     [booking_of 1 ''t1@x'' ''Tom'' APPROVED] \<and>
   length (approved_bookings 1
     (serve [RequestBooking no_smtp tom (Some 1) 30 31,
             ApproveBooking smtp_down olga (Some 2) 40,
             RejectBooking smtp_up olga (Some 1) 50,
             ApproveBooking smtp_up olga (Some 3) 60]
        (installation [booking_of 1 ''t1@x'' ''Tom'' APPROVED,
                       booking_of 2 ''t2@x'' ''Tina'' PENDING]))) \<le> 1 \<and>
   snd (owner_approve_request smtp_up olga (Some 2) 40
          (installation [booking_of 1 ''t1@x'' ''Tom'' APPROVED,
                         booking_of 2 ''t2@x'' ''Tina'' PENDING])) =
     installation [booking_of 1 ''t1@x'' ''Tom'' APPROVED,
                   booking_of 2 ''t2@x'' ''Tina'' PENDING]"
proof -
  let ?w = "installation [booking_of 1 ''t1@x'' ''Tom'' APPROVED,
                          booking_of 2 ''t2@x'' ''Tina'' PENDING]"
  have one: "approved_bookings 1 ?w = [booking_of 1 ''t1@x'' ''Tom'' APPROVED]"
    by (simp add: approved_bookings_def installation_def booking_of_def)
  have found: "find_one (\<lambda>d. b_id d = 2) (bookings_col ?w) = Some (booking_of 2 ''t2@x'' ''Tina'' PENDING)"
    by (simp add: installation_def booking_of_def)
  have flat2: "b_property_id (booking_of 2 ''t2@x'' ''Tina'' PENDING) = 1"
    by (simp add: booking_of_def)
  from one found flat2
    exclusivity [of 1 ?w "[RequestBooking no_smtp tom (Some 1) 30 31,
             ApproveBooking smtp_down olga (Some 2) 40,
             RejectBooking smtp_up olga (Some 1) 50,
             ApproveBooking smtp_up olga (Some 3) 60]" 2 "booking_of 2 ''t2@x'' ''Tina'' PENDING"
             smtp_up olga 40]
  show ?thesis by simp
qed

subsection \<open>Positions in the collection of bookings\<close>

lemmas installation_defs =
  installation_def booking_of_def flat_def people_def request_notice_def
  olga_def otto_def tom_def tina_def is_logged_in_def role_is_def

lemma nth_update_many:
  "i < length ds \<Longrightarrow> update_many P f ds ! i = (if P (ds ! i) then f (ds ! i) else ds ! i)"
  by (simp add: update_many_map)

lemma length_bookings_approve:
  "length (bookings_col (snd (owner_approve_request m s bid now w))) = length (bookings_col w)"
proof -
  obtain r w' where run: "owner_approve_request m s bid now w = (r, w')"
    by (cases "owner_approve_request m s bid now w")
  from owner_approve_request_cases [OF run] have "length (bookings_col w') = length (bookings_col w)"
    by (auto simp add: length_update_many length_update_one)
  with run show ?thesis by simp
qed

lemma length_bookings_reject:
  "length (bookings_col (snd (owner_reject_request m s bid now w))) = length (bookings_col w)"
proof -
  obtain r w' where run: "owner_reject_request m s bid now w = (r, w')"
    by (cases "owner_reject_request m s bid now w")
  from owner_reject_request_cases [OF run] have "length (bookings_col w') = length (bookings_col w)"
    by (auto simp add: length_update_one)
  with run show ?thesis by simp
qed

subsection \<open>Approval of a booked property\<close>

lemma owns_iff:
  "owns s p w \<longleftrightarrow>
     (\<exists>me. user_email s = Some me \<and>
           find_one (\<lambda>d. p_id d = p \<and> owner_email d = me) (props_col w) \<noteq> None)"
  by (auto simp add: owns_def find_one_None list_ex_iff split: option.splits)

lemma approve_by_owner:
  assumes "is_logged_in s" and "role_is s ''owner''"
    and "find_one (\<lambda>d. b_id d = x) (bookings_col w) = Some b"
    and "owns s (b_property_id b) w"
  shows "fst (owner_approve_request m s (Some x) now w) =
           (if findApproved (b_property_id b) (bookings_col w) = None
            then BookingApproved (b_property_id b)
            else PropertyAlreadyBooked (b_property_id b))"
  using assms
  by (auto simp add: owner_approve_request_def owns_iff findApproved_def Let_def
        split: option.splits)

lemma approve_of_booked:
  assumes "findApproved (b_property_id b) (bookings_col w) \<noteq> None"
    and "find_one (\<lambda>d. b_id d = x) (bookings_col w) = Some b"
  shows "snd (owner_approve_request m s (Some x) now w) = w"
  using assms owner_approve_request_refuses [of b w x m s now]
  by (simp add: findApproved_None_iff)

text \<open>
  Claim C3, as amended. Called by the owner of the property on an existing booking, the
  approval fails with "This property is already booked by someone else." exactly when the
  query for an APPROVED booking of the property returns a booking, be it another booking or the
  booking to approve itself; it then writes nothing: the collections, the console and the
  outgoing mail are as before. When the query returns nothing the approval succeeds.
\<close>

theorem already_booked:
  assumes "is_logged_in s" and "role_is s ''owner''"
    and "find_one (\<lambda>d. b_id d = x) (bookings_col w) = Some b"
    and "owns s (b_property_id b) w"
  shows "(fst (owner_approve_request m s (Some x) now w) = PropertyAlreadyBooked (b_property_id b))
           = (findApproved (b_property_id b) (bookings_col w) \<noteq> None) \<and>
         (findApproved (b_property_id b) (bookings_col w) \<noteq> None \<longrightarrow>
            snd (owner_approve_request m s (Some x) now w) = w) \<and>
         (findApproved (b_property_id b) (bookings_col w) = None \<longrightarrow>
            fst (owner_approve_request m s (Some x) now w) = BookingApproved (b_property_id b))"
proof -
  have "BookingApproved (b_property_id b) \<noteq> PropertyAlreadyBooked (b_property_id b)"
    by (simp add: flash_redirect_def)
  with approve_by_owner [OF assms, of m now] approve_of_booked [OF _ assms(3), of m s now]
  show ?thesis by auto
qed

theorem already_booked_witness:
  "is_logged_in olga \<and> role_is olga ''owner'' \<and>
   owns olga 1 (installation [booking_of 1 ''t1@x'' ''Tom'' APPROVED,
                              booking_of 2 ''t2@x'' ''Tina'' PENDING]) \<and>
   owner_approve_request smtp_up olga (Some 2) 50
      (installation [booking_of 1 ''t1@x'' ''Tom'' APPROVED,
                     booking_of 2 ''t2@x'' ''Tina'' PENDING]) =
     (PropertyAlreadyBooked 1,
      installation [booking_of 1 ''t1@x'' ''Tom'' APPROVED,
                    booking_of 2 ''t2@x'' ''Tina'' PENDING])"
proof -
  let ?w = "installation [booking_of 1 ''t1@x'' ''Tom'' APPROVED,
                          booking_of 2 ''t2@x'' ''Tina'' PENDING]"
  let ?b = "booking_of 2 ''t2@x'' ''Tina'' PENDING"
  have s: "is_logged_in olga" "role_is olga ''owner''"
    by (simp_all add: olga_def is_logged_in_def role_is_def)
  have found: "find_one (\<lambda>d. b_id d = 2) (bookings_col ?w) = Some ?b"
    by (simp add: installation_def booking_of_def)
  have p: "b_property_id ?b = 1"
    by (simp add: booking_of_def)
  have own: "owns olga 1 ?w"
    by (simp add: owns_def installation_def olga_def flat_def)
  have booked: "findApproved 1 (bookings_col ?w) \<noteq> None"
    by (simp add: findApproved_def installation_def booking_of_def)
  from already_booked [OF s found, of smtp_up 50] own booked p s
  show ?thesis by (simp add: prod_eq_iff)
qed

text \<open>
  Claim C3, as stated, fails: the owner approves booking 1, which is APPROVED already. The
  query for an APPROVED booking of the property returns booking 1 itself, no different
  booking, and the approval fails with "This property is already booked by someone else.".
\<close>

theorem already_booked_counterexample:
  "findApproved 1 (bookings_col (installation [booking_of 1 ''t1@x'' ''Tom'' APPROVED])) =
     Some (booking_of 1 ''t1@x'' ''Tom'' APPROVED) \<and>
   b_id (booking_of 1 ''t1@x'' ''Tom'' APPROVED) = 1 \<and>
   owns olga 1 (installation [booking_of 1 ''t1@x'' ''Tom'' APPROVED]) \<and>
   owner_approve_request smtp_up olga (Some 1) 50
      (installation [booking_of 1 ''t1@x'' ''Tom'' APPROVED]) =
     (PropertyAlreadyBooked 1, installation [booking_of 1 ''t1@x'' ''Tom'' APPROVED])"
  by (simp add: owner_approve_request_def findApproved_def owns_def installation_defs)

subsection \<open>Status transitions\<close>

lemma nth_update_one_distinct:
  "distinct (map k ds) \<Longrightarrow> i < length ds \<Longrightarrow>
   update_one (\<lambda>d. k d = v) f ds ! i = (if k (ds ! i) = v then f (ds ! i) else ds ! i)"
proof (induction ds arbitrary: i)
  case Nil
  then show ?case by simp
next
  case (Cons d ds)
  show ?case
  proof (cases i)
    case 0
    then show ?thesis by simp
  next
    case (Suc j)
    with Cons.prems have j: "j < length ds" and "k d \<notin> k ` set ds" and "distinct (map k ds)"
      by simp_all
    then have "k d = v \<Longrightarrow> k (ds ! j) \<noteq> v"
      by (metis image_eqI nth_mem)
    with Suc j Cons.IH [OF \<open>distinct (map k ds)\<close> j] show ?thesis by simp
  qed
qed

lemma find_one_distinct_nth:
  "distinct (map k ds) \<Longrightarrow> i < length ds \<Longrightarrow>
   find_one (\<lambda>d. k d = k (ds ! i)) ds = Some (ds ! i)"
proof (induction ds arbitrary: i)
  case Nil
  then show ?case by simp
next
  case (Cons d ds)
  show ?case
  proof (cases i)
    case 0
    then show ?thesis by simp
  next
    case (Suc j)
    with Cons.prems have j: "j < length ds" and "k d \<notin> k ` set ds" and "distinct (map k ds)"
      by simp_all
    then have "k d \<noteq> k (ds ! j)"
      by (metis image_eqI nth_mem)
    with Suc j Cons.IH [OF \<open>distinct (map k ds)\<close> j] show ?thesis by simp
  qed
qed

lemma map_update_one: "(\<And>d. k (f d) = k d) \<Longrightarrow> map k (update_one P f ds) = map k ds"
  by (induction ds) simp_all

lemma map_update_many: "(\<And>d. k (f d) = k d) \<Longrightarrow> map k (update_many P f ds) = map k ds"
  by (induction ds) simp_all

lemma approve_nth:
  assumes i: "i < length (bookings_col w)"
    and ids: "distinct (map b_id (bookings_col w))"
  shows "bookings_col (snd (owner_approve_request m s bid now w)) ! i =
           (if fst (owner_approve_request m s bid now w)
                 = BookingApproved (b_property_id (bookings_col w ! i))
            then (if bid = Some (b_id (bookings_col w ! i))
                  then (bookings_col w ! i)\<lparr>b_status := APPROVED\<rparr>
                  else if b_status (bookings_col w ! i) = PENDING
                  then (bookings_col w ! i)\<lparr>b_status := REJECTED\<rparr>
                  else bookings_col w ! i)
            else bookings_col w ! i)"
proof -
  let ?d = "bookings_col w ! i"
  obtain r w' where run: "owner_approve_request m s bid now w = (r, w')"
    by (cases "owner_approve_request m s bid now w")
  from owner_approve_request_cases [OF run]
  have "bookings_col w' ! i =
          (if r = BookingApproved (b_property_id ?d)
           then (if bid = Some (b_id ?d) then ?d\<lparr>b_status := APPROVED\<rparr>
                 else if b_status ?d = PENDING then ?d\<lparr>b_status := REJECTED\<rparr> else ?d)
           else ?d)"
  proof (elim disjE exE conjE)
    assume "w' = w" and "\<forall>p. r \<noteq> BookingApproved p"
    then show ?thesis by simp
  next
    fix me x booking pdoc msg
    assume bid: "bid = Some x"
      and found: "find_one (\<lambda>b. b_id b = x) (bookings_col w) = Some booking"
      and r: "r = BookingApproved (b_property_id booking)"
      and after: "bookings_col w' =
        update_many
          (\<lambda>b. b_property_id b = b_property_id booking \<and> b_status b = PENDING
               \<and> b_id b \<noteq> b_id booking)
          (\<lambda>b. b\<lparr>b_status := REJECTED\<rparr>)
          (update_one (\<lambda>b. b_id b = b_id booking) (\<lambda>b. b\<lparr>b_status := APPROVED\<rparr>)
             (bookings_col w))"
    let ?one = "update_one (\<lambda>b. b_id b = b_id booking) (\<lambda>b. b\<lparr>b_status := APPROVED\<rparr>)
                  (bookings_col w)"
    from found have x: "b_id booking = x"
      by (auto dest: find_one_Some)
    have target: "b_id ?d = x \<Longrightarrow> ?d = booking"
      using find_one_distinct_nth [OF ids i] found by simp
    have one: "?one ! i = (if b_id ?d = x then ?d\<lparr>b_status := APPROVED\<rparr> else ?d)"
      using nth_update_one_distinct [OF ids i] x by simp
    from i have "i < length ?one"
      by (simp add: length_update_one)
    then have nth: "bookings_col w' ! i =
        (if b_property_id (?one ! i) = b_property_id booking \<and> b_status (?one ! i) = PENDING
            \<and> b_id (?one ! i) \<noteq> x
         then (?one ! i)\<lparr>b_status := REJECTED\<rparr> else ?one ! i)"
      by (simp add: after nth_update_many x)
    have resp: "(r = BookingApproved (b_property_id ?d)) = (b_property_id booking = b_property_id ?d)"
      by (simp add: r flash_redirect_def)
    show ?thesis
    proof (cases "b_id ?d = x")
      case True
      with target have "?d = booking" by simp
      with True one have "?one ! i = booking\<lparr>b_status := APPROVED\<rparr>" by simp
      with \<open>?d = booking\<close> x show ?thesis
        by (simp add: nth r bid)
    next
      case False
      with one have "?one ! i = ?d" by simp
      with False show ?thesis
        by (simp add: nth resp bid)
    qed
  qed
  with run show ?thesis by simp
qed

lemma reject_nth:
  assumes i: "i < length (bookings_col w)"
    and ids: "distinct (map b_id (bookings_col w))"
  shows "bookings_col (snd (owner_reject_request m s bid now w)) ! i =
           (if fst (owner_reject_request m s bid now w)
                 = BookingRejected (b_property_id (bookings_col w ! i))
               \<and> bid = Some (b_id (bookings_col w ! i))
            then (bookings_col w ! i)\<lparr>b_status := REJECTED\<rparr>
            else bookings_col w ! i)"
proof -
  let ?d = "bookings_col w ! i"
  obtain r w' where run: "owner_reject_request m s bid now w = (r, w')"
    by (cases "owner_reject_request m s bid now w")
  from owner_reject_request_cases [OF run]
  have "bookings_col w' ! i =
          (if r = BookingRejected (b_property_id ?d) \<and> bid = Some (b_id ?d)
           then ?d\<lparr>b_status := REJECTED\<rparr> else ?d)"
  proof (elim disjE exE conjE)
    assume "w' = w" and "\<forall>p. r \<noteq> BookingRejected p"
    then show ?thesis by simp
  next
    fix me x booking pdoc msg
    assume bid: "bid = Some x"
      and found: "find_one (\<lambda>b. b_id b = x) (bookings_col w) = Some booking"
      and r: "r = BookingRejected (b_property_id booking)"
      and after: "bookings_col w' =
        update_one (\<lambda>b. b_id b = b_id booking) (\<lambda>b. b\<lparr>b_status := REJECTED\<rparr>) (bookings_col w)"
    from found have x: "b_id booking = x"
      by (auto dest: find_one_Some)
    have target: "b_id ?d = x \<Longrightarrow> ?d = booking"
      using find_one_distinct_nth [OF ids i] found by simp
    have nth: "bookings_col w' ! i = (if b_id ?d = x then ?d\<lparr>b_status := REJECTED\<rparr> else ?d)"
      using nth_update_one_distinct [OF ids i] x by (simp add: after)
    from target show ?thesis
      by (auto simp add: nth r bid)
  qed
  with run show ?thesis by simp
qed

lemma reject_by_owner:
  assumes "is_logged_in s" and "role_is s ''owner''"
    and "find_one (\<lambda>d. b_id d = x) (bookings_col w) = Some b"
    and "owns s (b_property_id b) w"
  shows "fst (owner_reject_request m s (Some x) now w) = BookingRejected (b_property_id b)"
  using assms
  by (auto simp add: owner_reject_request_def owns_iff Let_def split: option.splits)

text \<open>Distinct booking ids, as MongoDB keeps them, stay distinct under every request.\<close>

lemma handle_distinct_ids:
  assumes "distinct (map b_id (bookings_col w))"
  shows "distinct (map b_id (bookings_col (snd (handle r w))))"
proof (cases r)
  case (RequestBooking m s pid now1 now2)
  obtain res w' where run: "book_property m s pid now1 now2 w = (res, w')"
    by (cases "book_property m s pid now1 now2 w")
  from book_property_cases [OF run] assms new_objectid_fresh [of "map b_id (bookings_col w)"]
  have "distinct (map b_id (bookings_col w'))" by auto
  with run RequestBooking show ?thesis by simp
next
  case (ApproveBooking m s bid now)
  obtain res w' where run: "owner_approve_request m s bid now w = (res, w')"
    by (cases "owner_approve_request m s bid now w")
  from owner_approve_request_cases [OF run]
  have "map b_id (bookings_col w') = map b_id (bookings_col w)"
    by (auto simp add: map_update_one map_update_many)
  with assms run ApproveBooking show ?thesis by simp
next
  case (RejectBooking m s bid now)
  obtain res w' where run: "owner_reject_request m s bid now w = (res, w')"
    by (cases "owner_reject_request m s bid now w")
  from owner_reject_request_cases [OF run]
  have "map b_id (bookings_col w') = map b_id (bookings_col w)"
    by (auto simp add: map_update_one)
  with assms run RejectBooking show ?thesis by simp
qed

lemma serve_distinct_ids:
  "distinct (map b_id (bookings_col w)) \<Longrightarrow> distinct (map b_id (bookings_col (serve rs w)))"
  by (induction rs arbitrary: w) (simp_all add: handle_distinct_ids)

text \<open>
  Claim C2, as amended. The routes have no notion of a terminal status. In a collection of
  bookings with distinct ids, an approval that succeeds for a property sets the booking it
  approves to APPROVED whatever its status was, sets the other PENDING bookings of that
  property to REJECTED, and leaves every other booking as it was; a rejection that succeeds
  sets the booking it rejects to REJECTED whatever its status was and leaves every other
  booking as it was; an approval or rejection that does not succeed leaves every booking as it
  was. For the owner of the booking's property, logged in as an owner, the rejection always
  succeeds and the approval succeeds exactly when the property has no APPROVED booking. So an
  APPROVED booking is changed only by its own rejection, and a REJECTED booking only by its own
  approval.
\<close>

theorem status_transitions:
  assumes "i < length (bookings_col w)"
    and "distinct (map b_id (bookings_col w))"
  shows "let d = bookings_col w ! i;
             approval = owner_approve_request m s bid now w;
             rejection = owner_reject_request m s bid now w
         in length (bookings_col (snd approval)) = length (bookings_col w) \<and>
            length (bookings_col (snd rejection)) = length (bookings_col w) \<and>
            bookings_col (snd approval) ! i =
              (if fst approval = BookingApproved (b_property_id d)
               then (if bid = Some (b_id d) then d\<lparr>b_status := APPROVED\<rparr>
                     else if b_status d = PENDING then d\<lparr>b_status := REJECTED\<rparr>
                     else d)
               else d) \<and>
            bookings_col (snd rejection) ! i =
              (if fst rejection = BookingRejected (b_property_id d) \<and> bid = Some (b_id d)
               then d\<lparr>b_status := REJECTED\<rparr>
               else d) \<and>
            (is_logged_in s \<and> role_is s ''owner'' \<and> owns s (b_property_id d) w
               \<and> bid = Some (b_id d) \<longrightarrow>
               fst rejection = BookingRejected (b_property_id d) \<and>
               (fst approval = BookingApproved (b_property_id d))
                 = (findApproved (b_property_id d) (bookings_col w) = None))"
proof -
  let ?d = "bookings_col w ! i"
  have found: "find_one (\<lambda>e. b_id e = b_id ?d) (bookings_col w) = Some ?d"
    using assms by (simp add: find_one_distinct_nth)
  have differ: "BookingApproved (b_property_id ?d) \<noteq> PropertyAlreadyBooked (b_property_id ?d)"
    by (simp add: flash_redirect_def)
  have owner: "is_logged_in s \<and> role_is s ''owner'' \<and> owns s (b_property_id ?d) w
      \<and> bid = Some (b_id ?d) \<longrightarrow>
      fst (owner_reject_request m s bid now w) = BookingRejected (b_property_id ?d) \<and>
      (fst (owner_approve_request m s bid now w) = BookingApproved (b_property_id ?d))
        = (findApproved (b_property_id ?d) (bookings_col w) = None)"
    using reject_by_owner [OF _ _ found, of s m now] approve_by_owner [OF _ _ found, of s m now]
      differ
    by auto
  from approve_nth [OF assms, of m s bid now] reject_nth [OF assms, of m s bid now]
    length_bookings_approve [of m s bid now w] length_bookings_reject [of m s bid now w] owner
  show ?thesis
    unfolding Let_def by blast
qed

theorem status_transitions_witness:
  "distinct (map b_id (bookings_col (installation [booking_of 1 ''t1@x'' ''Tom'' APPROVED,
                                                   booking_of 2 ''t2@x'' ''Tina'' PENDING]))) \<and>
   is_logged_in olga \<and> role_is olga ''owner'' \<and>
   owns olga 1 (installation [booking_of 1 ''t1@x'' ''Tom'' APPROVED,
                              booking_of 2 ''t2@x'' ''Tina'' PENDING]) \<and>
   fst (owner_reject_request smtp_up olga (Some 1) 50
      (installation [booking_of 1 ''t1@x'' ''Tom'' APPROVED,
                     booking_of 2 ''t2@x'' ''Tina'' PENDING])) = BookingRejected 1 \<and>
   bookings_col (snd (owner_reject_request smtp_up olga (Some 1) 50
      (installation [booking_of 1 ''t1@x'' ''Tom'' APPROVED,
                     booking_of 2 ''t2@x'' ''Tina'' PENDING]))) ! 0 =
     booking_of 1 ''t1@x'' ''Tom'' REJECTED \<and>
   bookings_col (snd (owner_approve_request smtp_up olga (Some 1) 50
      (installation [booking_of 1 ''t1@x'' ''Tom'' APPROVED,
                     booking_of 2 ''t2@x'' ''Tina'' PENDING]))) ! 0 =
     booking_of 1 ''t1@x'' ''Tom'' APPROVED"
proof -
  let ?w = "installation [booking_of 1 ''t1@x'' ''Tom'' APPROVED,
                          booking_of 2 ''t2@x'' ''Tina'' PENDING]"
  have i: "0 < length (bookings_col ?w)"
    by (simp add: installation_def)
  have ids: "distinct (map b_id (bookings_col ?w))"
    by (simp add: installation_def booking_of_def)
  have d: "bookings_col ?w ! 0 = booking_of 1 ''t1@x'' ''Tom'' APPROVED"
    by (simp add: installation_def)
  have fields: "b_id (booking_of 1 ''t1@x'' ''Tom'' APPROVED) = 1"
    "b_property_id (booking_of 1 ''t1@x'' ''Tom'' APPROVED) = 1"
    "(booking_of 1 ''t1@x'' ''Tom'' APPROVED)\<lparr>b_status := REJECTED\<rparr>
       = booking_of 1 ''t1@x'' ''Tom'' REJECTED"
    "(booking_of 1 ''t1@x'' ''Tom'' APPROVED)\<lparr>b_status := APPROVED\<rparr>
       = booking_of 1 ''t1@x'' ''Tom'' APPROVED"
    by (simp_all add: booking_of_def)
  have s: "is_logged_in olga" "role_is olga ''owner''"
    by (simp_all add: olga_def is_logged_in_def role_is_def)
  have own: "owns olga 1 ?w"
    by (simp add: owns_def installation_def olga_def flat_def)
  have booked: "findApproved 1 (bookings_col ?w) \<noteq> None"
    by (simp add: findApproved_def installation_def booking_of_def)
  from status_transitions [OF i ids, of smtp_up olga "Some 1" 50] d fields s own booked ids
  show ?thesis
    by (simp add: Let_def)
qed

text \<open>
  Claim C2, as stated, fails: the owner's rejection of an APPROVED booking succeeds and
  leaves it REJECTED, and the owner's approval of a REJECTED booking succeeds and leaves it
  APPROVED.
\<close>

theorem terminal_status_counterexample:
  "b_status (bookings_col (installation [booking_of 1 ''t1@x'' ''Tom'' APPROVED]) ! 0) = APPROVED \<and>
   fst (owner_reject_request smtp_up olga (Some 1) 50
      (installation [booking_of 1 ''t1@x'' ''Tom'' APPROVED])) = BookingRejected 1 \<and>
   b_status (bookings_col (snd (owner_reject_request smtp_up olga (Some 1) 50
      (installation [booking_of 1 ''t1@x'' ''Tom'' APPROVED]))) ! 0) = REJECTED \<and>
   b_status (bookings_col (installation [booking_of 1 ''t1@x'' ''Tom'' REJECTED]) ! 0) = REJECTED \<and>
   fst (owner_approve_request smtp_up olga (Some 1) 50
      (installation [booking_of 1 ''t1@x'' ''Tom'' REJECTED])) = BookingApproved 1 \<and>
   b_status (bookings_col (snd (owner_approve_request smtp_up olga (Some 1) 50
      (installation [booking_of 1 ''t1@x'' ''Tom'' REJECTED]))) ! 0) = APPROVED"
  by (simp add: owner_reject_request_def owner_approve_request_def installation_defs Let_def
        try_send_email_cols)

subsection \<open>The effect of an approval on the bookings\<close>




subsection \<open>Authorization\<close>

text \<open>
  Claim C5 (invariant I3, authorization). When the caller does not own the property of an
  existing booking, the approval and the rejection leave the whole state as it was, and a
  caller who is logged in with the role of an owner is told "You are not authorized to
  approve (or reject) this booking.".
\<close>

theorem not_authorized:
  assumes "find_one (\<lambda>d. b_id d = x) (bookings_col w) = Some b"
    and "\<not> owns s (b_property_id b) w"
  shows "snd (owner_approve_request m s (Some x) now w) = w \<and>
         snd (owner_reject_request m s (Some x) now w) = w \<and>
         (is_logged_in s \<and> role_is s ''owner'' \<longrightarrow>
            fst (owner_approve_request m s (Some x) now w) = NotAuthorizedApprove \<and>
            fst (owner_reject_request m s (Some x) now w) = NotAuthorizedReject)"
  using assms
  by (auto simp add: owner_approve_request_def owner_reject_request_def owns_iff
        is_logged_in_def split: option.splits)

theorem not_authorized_witness:
  "is_logged_in otto \<and> role_is otto ''owner'' \<and>
   \<not> owns otto 1 (installation [booking_of 1 ''t1@x'' ''Tom'' PENDING]) \<and>
   owner_approve_request smtp_up otto (Some 1) 50
      (installation [booking_of 1 ''t1@x'' ''Tom'' PENDING]) =
     (NotAuthorizedApprove, installation [booking_of 1 ''t1@x'' ''Tom'' PENDING]) \<and>
   owner_reject_request smtp_up otto (Some 1) 50
      (installation [booking_of 1 ''t1@x'' ''Tom'' PENDING]) =
     (NotAuthorizedReject, installation [booking_of 1 ''t1@x'' ''Tom'' PENDING])"
proof -
  let ?w = "installation [booking_of 1 ''t1@x'' ''Tom'' PENDING]"
  let ?b = "booking_of 1 ''t1@x'' ''Tom'' PENDING"
  have s: "is_logged_in otto \<and> role_is otto ''owner''"
    by (simp add: otto_def is_logged_in_def role_is_def)
  have found: "find_one (\<lambda>d. b_id d = 1) (bookings_col ?w) = Some ?b"
    by (simp add: installation_def booking_of_def)
  have p: "b_property_id ?b = 1"
    by (simp add: booking_of_def)
  have stranger: "\<not> owns otto 1 ?w"
    by (simp add: owns_def installation_def otto_def flat_def)
  from stranger p have "\<not> owns otto (b_property_id ?b) ?w" by simp
  from not_authorized [OF found this, of smtp_up 50] s stranger
  show ?thesis by (simp add: prod_eq_iff)
qed

subsection \<open>Notifications\<close>

lemma book_property_notification:
  assumes ok: "fst (book_property m s pid now1 now2 w) = BookingRequested p"
  shows "\<exists>pdoc n. pid = Some p \<and> find_one (\<lambda>d. p_id d = p) (props_col w) = Some pdoc \<and>
           notifications_col (snd (book_property m s pid now1 now2 w)) = notifications_col w @ [n] \<and>
           recipients n = [owner_email pdoc] \<and> n_property_id n = p \<and> n_booking_id n = None \<and>
           timestamp n = now2 \<and> \<not> read n"
proof -
  obtain r w' where run: "book_property m s pid now1 now2 w = (r, w')"
    by (cases "book_property m s pid now1 now2 w")
  with ok have r: "r = BookingRequested p" by simp
  from book_property_cases [OF run] r
  obtain pdoc y msg where pid: "pid = Some y"
    and found: "find_one (\<lambda>d. p_id d = y) (props_col w) = Some pdoc"
    and p: "p_id pdoc = p"
    and after: "notifications_col w' = notifications_col w @
          [\<lparr>n_id = new_objectid (map n_id (notifications_col w)),
            n_owner_email = owner_email pdoc, n_tenant_email = None,
            n_property_id = p_id pdoc, n_booking_id = None, message = msg,
            timestamp = now2, read = False\<rparr>]"
    by (auto simp add: flash_redirect_def)
  from found have "p_id pdoc = y"
    by (auto dest: find_one_Some)
  with p pid found after run show ?thesis
    by (simp add: recipients_def)
qed

lemma owner_approve_request_notification:
  assumes ok: "fst (owner_approve_request m s bid now w) = BookingApproved p"
  shows "\<exists>x b me n. bid = Some x \<and> find_one (\<lambda>d. b_id d = x) (bookings_col w) = Some b \<and>
           user_email s = Some me \<and> b_property_id b = p \<and>
           notifications_col (snd (owner_approve_request m s bid now w)) = notifications_col w @ [n] \<and>
           recipients n = [me, b_tenant_email b] \<and> n_property_id n = p \<and>
           n_booking_id n = Some x \<and> timestamp n = now \<and> \<not> read n"
proof -
  obtain r w' where run: "owner_approve_request m s bid now w = (r, w')"
    by (cases "owner_approve_request m s bid now w")
  with ok have r: "r = BookingApproved p" by simp
  from owner_approve_request_cases [OF run] r
  obtain me x b msg where bid: "bid = Some x" and me: "user_email s = Some me"
    and found: "find_one (\<lambda>d. b_id d = x) (bookings_col w) = Some b"
    and p: "b_property_id b = p"
    and after: "notifications_col w' = notifications_col w @
          [\<lparr>n_id = new_objectid (map n_id (notifications_col w)),
            n_owner_email = me, n_tenant_email = Some (b_tenant_email b),
            n_property_id = b_property_id b, n_booking_id = Some (b_id b),
            message = msg, timestamp = now, read = False\<rparr>]"
    by (auto simp add: flash_redirect_def)
  from found have "b_id b = x"
    by (auto dest: find_one_Some)
  with bid me found p after run show ?thesis
    by (simp add: recipients_def)
qed

lemma owner_reject_request_notification:
  assumes ok: "fst (owner_reject_request m s bid now w) = BookingRejected p"
  shows "\<exists>x b me n. bid = Some x \<and> find_one (\<lambda>d. b_id d = x) (bookings_col w) = Some b \<and>
           user_email s = Some me \<and> b_property_id b = p \<and>
           notifications_col (snd (owner_reject_request m s bid now w)) = notifications_col w @ [n] \<and>
           recipients n = [me, b_tenant_email b] \<and> n_property_id n = p \<and>
           n_booking_id n = Some x \<and> timestamp n = now \<and> \<not> read n"
proof -
  obtain r w' where run: "owner_reject_request m s bid now w = (r, w')"
    by (cases "owner_reject_request m s bid now w")
  with ok have r: "r = BookingRejected p" by simp
  from owner_reject_request_cases [OF run] r
  obtain me x b msg where bid: "bid = Some x" and me: "user_email s = Some me"
    and found: "find_one (\<lambda>d. b_id d = x) (bookings_col w) = Some b"
    and p: "b_property_id b = p"
    and after: "notifications_col w' = notifications_col w @
          [\<lparr>n_id = new_objectid (map n_id (notifications_col w)),
            n_owner_email = me, n_tenant_email = Some (b_tenant_email b),
            n_property_id = b_property_id b, n_booking_id = Some (b_id b),
            message = msg, timestamp = now, read = False\<rparr>]"
    by (auto simp add: flash_redirect_def)
  from found have "b_id b = x"
    by (auto dest: find_one_Some)
  with bid me found p after run show ?thesis
    by (simp add: recipients_def)
qed

text \<open>
  Claim C6, as amended. A successful booking request appends exactly one notification,
  unread, whose only recipient is the owner of the property. A successful approval, and a
  successful rejection, appends exactly one notification, unread, on the booking it decides,
  with two recipients: the acting owner (the key \<^verbatim>\<open>owner_email\<close>) and the tenant of
  that booking (the key \<^verbatim>\<open>tenant_email\<close>). So the approval inserts no notification on
  a booking that it rejects automatically.
\<close>

theorem notification_on_transition:
  "(fst (book_property m s pid now1 now2 w) = BookingRequested p \<longrightarrow>
      (\<exists>pdoc n. pid = Some p \<and> find_one (\<lambda>d. p_id d = p) (props_col w) = Some pdoc \<and>
         notifications_col (snd (book_property m s pid now1 now2 w)) = notifications_col w @ [n] \<and>
         recipients n = [owner_email pdoc] \<and> n_property_id n = p \<and> n_booking_id n = None \<and>
         timestamp n = now2 \<and> \<not> read n)) \<and>
   (fst (owner_approve_request m s bid now w) = BookingApproved p \<longrightarrow>
      (\<exists>x b me n. bid = Some x \<and> find_one (\<lambda>d. b_id d = x) (bookings_col w) = Some b \<and>
         user_email s = Some me \<and> b_property_id b = p \<and>
         notifications_col (snd (owner_approve_request m s bid now w)) = notifications_col w @ [n] \<and>
         recipients n = [me, b_tenant_email b] \<and> n_property_id n = p \<and>
         n_booking_id n = Some x \<and> timestamp n = now \<and> \<not> read n)) \<and>
   (fst (owner_reject_request m s bid now w) = BookingRejected p \<longrightarrow>
      (\<exists>x b me n. bid = Some x \<and> find_one (\<lambda>d. b_id d = x) (bookings_col w) = Some b \<and>
         user_email s = Some me \<and> b_property_id b = p \<and>
         notifications_col (snd (owner_reject_request m s bid now w)) = notifications_col w @ [n] \<and>
         recipients n = [me, b_tenant_email b] \<and> n_property_id n = p \<and>
         n_booking_id n = Some x \<and> timestamp n = now \<and> \<not> read n))"
  using book_property_notification [of m s pid now1 now2 w p]
    owner_approve_request_notification [of m s bid now w p]
    owner_reject_request_notification [of m s bid now w p]
  by blast

theorem notification_on_transition_witness:
  "fst (book_property smtp_down tina (Some 1) 30 31
          (installation [booking_of 1 ''t1@x'' ''Tom'' PENDING,
                         booking_of 2 ''t2@x'' ''Tina'' PENDING])) = BookingRequested 1 \<and>
   map recipients (notifications_col (snd (book_property smtp_down tina (Some 1) 30 31
          (installation [booking_of 1 ''t1@x'' ''Tom'' PENDING,
                         booking_of 2 ''t2@x'' ''Tina'' PENDING])))) = [[''o@x''], [''o@x'']] \<and>
   fst (owner_approve_request smtp_down olga (Some 1) 50
          (installation [booking_of 1 ''t1@x'' ''Tom'' PENDING,
                         booking_of 2 ''t2@x'' ''Tina'' PENDING])) = BookingApproved 1 \<and>
   map recipients (notifications_col (snd (owner_approve_request smtp_down olga (Some 1) 50
          (installation [booking_of 1 ''t1@x'' ''Tom'' PENDING,
                         booking_of 2 ''t2@x'' ''Tina'' PENDING])))) =
     [[''o@x''], [''o@x'', ''t1@x'']] \<and>
   fst (owner_reject_request smtp_down olga (Some 2) 50
          (installation [booking_of 1 ''t1@x'' ''Tom'' PENDING,
                         booking_of 2 ''t2@x'' ''Tina'' PENDING])) = BookingRejected 1 \<and>
   map recipients (notifications_col (snd (owner_reject_request smtp_down olga (Some 2) 50
          (installation [booking_of 1 ''t1@x'' ''Tom'' PENDING,
                         booking_of 2 ''t2@x'' ''Tina'' PENDING])))) =
     [[''o@x''], [''o@x'', ''t2@x'']]"
proof -
  let ?w = "installation [booking_of 1 ''t1@x'' ''Tom'' PENDING,
                          booking_of 2 ''t2@x'' ''Tina'' PENDING]"
  have requested: "fst (book_property smtp_down tina (Some 1) 30 31 ?w) = BookingRequested 1"
    by (simp add: book_property_def installation_defs Let_def)
  have approved: "fst (owner_approve_request smtp_down olga (Some 1) 50 ?w) = BookingApproved 1"
    by (simp add: owner_approve_request_def installation_defs Let_def)
  have rejected: "fst (owner_reject_request smtp_down olga (Some 2) 50 ?w) = BookingRejected 1"
    by (simp add: owner_reject_request_def installation_defs Let_def)
  have before: "map recipients (notifications_col ?w) = [[''o@x'']]"
    by (simp add: installation_def request_notice_def recipients_def)
  have docs: "find_one (\<lambda>d. p_id d = 1) (props_col ?w) = Some flat"
    "find_one (\<lambda>d. b_id d = 1) (bookings_col ?w) = Some (booking_of 1 ''t1@x'' ''Tom'' PENDING)"
    "find_one (\<lambda>d. b_id d = 2) (bookings_col ?w) = Some (booking_of 2 ''t2@x'' ''Tina'' PENDING)"
    "owner_email flat = ''o@x''" "user_email olga = Some ''o@x''"
    "b_tenant_email (booking_of 1 ''t1@x'' ''Tom'' PENDING) = ''t1@x''"
    "b_tenant_email (booking_of 2 ''t2@x'' ''Tina'' PENDING) = ''t2@x''"
    by (simp_all add: installation_def booking_of_def flat_def olga_def)
  from notification_on_transition [of smtp_down tina "Some 1" 30 31 ?w 1 None 0]
    requested before docs
  have one: "map recipients (notifications_col (snd (book_property smtp_down tina (Some 1) 30 31 ?w)))
               = [[''o@x''], [''o@x'']]"
    by auto
  from notification_on_transition [of smtp_down olga None 0 0 ?w 1 "Some 1" 50]
    approved before docs
  have two: "map recipients (notifications_col (snd (owner_approve_request smtp_down olga (Some 1) 50 ?w)))
               = [[''o@x''], [''o@x'', ''t1@x'']]"
    by auto
  from notification_on_transition [of smtp_down olga None 0 0 ?w 1 "Some 2" 50]
    rejected before docs
  have three: "map recipients (notifications_col (snd (owner_reject_request smtp_down olga (Some 2) 50 ?w)))
               = [[''o@x''], [''o@x'', ''t2@x'']]"
    by auto
  from requested approved rejected one two three show ?thesis by blast
qed

text \<open>
  Claim C6, as stated, fails: the notification that a successful approval inserts is not
  addressed to the tenant alone. The owner Olga approves Tom's booking; the new notification
  carries Olga under \<^verbatim>\<open>owner_email\<close> and Tom under \<^verbatim>\<open>tenant_email\<close>, so the
  routes that list notifications show it to Olga as well as to Tom.
\<close>

theorem notification_recipients_counterexample:
  "user_email olga = Some ''o@x'' \<and>
   b_tenant_email (booking_of 1 ''t1@x'' ''Tom'' PENDING) = ''t1@x'' \<and>
   map recipients (notifications_col (installation [booking_of 1 ''t1@x'' ''Tom'' PENDING]))
     = [[''o@x'']] \<and>
   fst (owner_approve_request smtp_up olga (Some 1) 50
          (installation [booking_of 1 ''t1@x'' ''Tom'' PENDING])) = BookingApproved 1 \<and>
   map recipients (notifications_col (snd (owner_approve_request smtp_up olga (Some 1) 50
          (installation [booking_of 1 ''t1@x'' ''Tom'' PENDING])))) =
     [[''o@x''], [''o@x'', ''t1@x'']]"
  by (simp add: owner_approve_request_def installation_defs Let_def try_send_email_cols
        recipients_def)

subsection \<open>Delivery failures\<close>

lemma book_property_mail_free:
  "fst (book_property m s pid now1 now2 w) = fst (book_property m' s pid now1 now2 w) \<and>
   persisted (snd (book_property m s pid now1 now2 w))
     = persisted (snd (book_property m' s pid now1 now2 w))"
  by (simp add: book_property_def Let_def persisted_try_send_email split: option.splits)

lemma owner_approve_request_mail_free:
  "fst (owner_approve_request m s bid now w) = fst (owner_approve_request m' s bid now w) \<and>
   persisted (snd (owner_approve_request m s bid now w))
     = persisted (snd (owner_approve_request m' s bid now w))"
  by (simp add: owner_approve_request_def Let_def persisted_try_send_email split: option.splits)

lemma owner_reject_request_mail_free:
  "fst (owner_reject_request m s bid now w) = fst (owner_reject_request m' s bid now w) \<and>
   persisted (snd (owner_reject_request m s bid now w))
     = persisted (snd (owner_reject_request m' s bid now w))"
  by (simp add: owner_reject_request_def Let_def persisted_try_send_email split: option.splits)

text \<open>
  Claim C7 (delivery isolation). Whatever the mail environment does (no SMTP settings, a
  port that is no number, a server that refuses the message or one that takes it), a booking
  request, an approval and a rejection return the same response and leave the same four
  collections; the mail environment shows only on the console and in the mail that left.
\<close>

theorem delivery_isolation:
  "fst (book_property m s pid now1 now2 w) = fst (book_property m' s pid now1 now2 w) \<and>
   persisted (snd (book_property m s pid now1 now2 w))
     = persisted (snd (book_property m' s pid now1 now2 w)) \<and>
   fst (owner_approve_request m s bid now w) = fst (owner_approve_request m' s bid now w) \<and>
   persisted (snd (owner_approve_request m s bid now w))
     = persisted (snd (owner_approve_request m' s bid now w)) \<and>
   fst (owner_reject_request m s bid now w) = fst (owner_reject_request m' s bid now w) \<and>
   persisted (snd (owner_reject_request m s bid now w))
     = persisted (snd (owner_reject_request m' s bid now w))"
  using book_property_mail_free [of m s pid now1 now2 w m']
    owner_approve_request_mail_free [of m s bid now w m']
    owner_reject_request_mail_free [of m s bid now w m']
  by blast

theorem delivery_isolation_witness:
  "fst (book_property smtp_down tina (Some 1) 30 31
          (installation [booking_of 1 ''t1@x'' ''Tom'' PENDING])) = BookingRequested 1 \<and>
   map b_status (bookings_col (snd (book_property smtp_down tina (Some 1) 30 31
          (installation [booking_of 1 ''t1@x'' ''Tom'' PENDING])))) = [PENDING, PENDING] \<and>
   fst (owner_approve_request smtp_down olga (Some 1) 50
          (installation [booking_of 1 ''t1@x'' ''Tom'' PENDING])) = BookingApproved 1 \<and>
   map b_status (bookings_col (snd (owner_approve_request smtp_down olga (Some 1) 50
          (installation [booking_of 1 ''t1@x'' ''Tom'' PENDING])))) = [APPROVED] \<and>
   fst (owner_reject_request smtp_down olga (Some 1) 50
          (installation [booking_of 1 ''t1@x'' ''Tom'' PENDING])) = BookingRejected 1 \<and>
   map b_status (bookings_col (snd (owner_reject_request smtp_down olga (Some 1) 50
          (installation [booking_of 1 ''t1@x'' ''Tom'' PENDING])))) = [REJECTED]"
proof -
  let ?w = "installation [booking_of 1 ''t1@x'' ''Tom'' PENDING]"
  have up: "fst (book_property smtp_up tina (Some 1) 30 31 ?w) = BookingRequested 1"
    "map b_status (bookings_col (snd (book_property smtp_up tina (Some 1) 30 31 ?w)))
       = [PENDING, PENDING]"
    "fst (owner_approve_request smtp_up olga (Some 1) 50 ?w) = BookingApproved 1"
    "map b_status (bookings_col (snd (owner_approve_request smtp_up olga (Some 1) 50 ?w)))
       = [APPROVED]"
    "fst (owner_reject_request smtp_up olga (Some 1) 50 ?w) = BookingRejected 1"
    "map b_status (bookings_col (snd (owner_reject_request smtp_up olga (Some 1) 50 ?w)))
       = [REJECTED]"
    by (simp_all add: book_property_def owner_approve_request_def owner_reject_request_def
          installation_defs Let_def try_send_email_cols)
  from delivery_isolation [of smtp_down tina "Some 1" 30 31 ?w smtp_up None 0]
    delivery_isolation [of smtp_down olga None 0 0 ?w smtp_up "Some 1" 50] up
  show ?thesis
    by (simp add: persisted_def)
qed

text \<open>
  The mail environment is not idle in the model: with a server that takes the message the
  rejection sends one mail and prints nothing, with a server that refuses it the rejection
  sends none and prints the three lines of the handler, and with a port that is no number
  it prints the line of the caller's handler.
\<close>

lemma delivery_outcomes:
  "length (outbox (snd (owner_reject_request smtp_up olga (Some 1) 50
      (installation [booking_of 1 ''t1@x'' ''Tom'' PENDING])))) = 1 \<and>
   stdout (snd (owner_reject_request smtp_up olga (Some 1) 50
      (installation [booking_of 1 ''t1@x'' ''Tom'' PENDING]))) = [] \<and>
   outbox (snd (owner_reject_request smtp_down olga (Some 1) 50
      (installation [booking_of 1 ''t1@x'' ''Tom'' PENDING]))) = [] \<and>
   take 2 (stdout (snd (owner_reject_request smtp_down olga (Some 1) 50
      (installation [booking_of 1 ''t1@x'' ''Tom'' PENDING])))) =
     [''Failed to send email: Connection refused'', ''Email contents were:''] \<and>
   stdout (snd (owner_reject_request (smtp_up\<lparr>SMTP_PORT := Port_invalid ''invalid literal''\<rparr>)
      olga (Some 1) 50 (installation [booking_of 1 ''t1@x'' ''Tom'' PENDING]))) =
     [''Email error (tenant notify reject): invalid literal'']"
  by (simp add: owner_reject_request_def installation_defs Let_def try_send_email_def
        send_email_def smtp_up_def smtp_down_def print_failure_def print_def)

subsection \<open>Booking requests\<close>

lemma book_property_inserts:
  assumes "is_logged_in s" and "role_is s ''tenant''"
    and "find_one (\<lambda>d. p_id d = p) (props_col w) = Some pdoc"
  shows "\<exists>me b. user_email s = Some me \<and>
           fst (book_property m s (Some p) now1 now2 w) = BookingRequested p \<and>
           bookings_col (snd (book_property m s (Some p) now1 now2 w)) = bookings_col w @ [b] \<and>
           b_status b = PENDING \<and> b_created_at b = now1 \<and> b_property_id b = p \<and>
           b_tenant_email b = me \<and> b_id b \<notin> set (map b_id (bookings_col w)) \<and>
           props_col (snd (book_property m s (Some p) now1 now2 w)) = props_col w"
proof -
  from assms(3) have "p_id pdoc = p"
    by (auto dest: find_one_Some)
  with assms show ?thesis
    using new_objectid_fresh [of "map b_id (bookings_col w)"]
    by (auto simp add: book_property_def Let_def try_send_email_cols is_logged_in_def
          split: option.splits)
qed

text \<open>
  Claim C8. A booking request by a logged-in tenant for a property that exists always
  succeeds and appends one booking with status PENDING, the time of the request, the property
  and the tenant, under an id that no booking has; no premise is made on the bookings of the
  property, so this holds when the property has an APPROVED booking. A second request by
  the same tenant appends a second booking under another id.
\<close>

theorem request_inserts_pending:
  assumes "is_logged_in s" and "role_is s ''tenant''"
    and "find_one (\<lambda>d. p_id d = p) (props_col w) = Some pdoc"
  shows "\<exists>me b1 b2. user_email s = Some me \<and>
           fst (book_property m s (Some p) now1 now2 w) = BookingRequested p \<and>
           bookings_col (snd (book_property m s (Some p) now1 now2 w)) = bookings_col w @ [b1] \<and>
           b_status b1 = PENDING \<and> b_created_at b1 = now1 \<and> b_property_id b1 = p \<and>
           b_tenant_email b1 = me \<and> b_id b1 \<notin> set (map b_id (bookings_col w)) \<and>
           fst (book_property m' s (Some p) now3 now4
                  (snd (book_property m s (Some p) now1 now2 w))) = BookingRequested p \<and>
           bookings_col (snd (book_property m' s (Some p) now3 now4
                  (snd (book_property m s (Some p) now1 now2 w)))) = bookings_col w @ [b1, b2] \<and>
           b_status b2 = PENDING \<and> b_created_at b2 = now3 \<and> b_property_id b2 = p \<and>
           b_tenant_email b2 = me \<and> b_id b2 \<noteq> b_id b1"
proof -
  let ?w1 = "snd (book_property m s (Some p) now1 now2 w)"
  from book_property_inserts [OF assms, of m now1 now2]
  obtain me b1 where me: "user_email s = Some me"
    and first: "fst (book_property m s (Some p) now1 now2 w) = BookingRequested p"
      "bookings_col ?w1 = bookings_col w @ [b1]"
      "b_status b1 = PENDING" "b_created_at b1 = now1" "b_property_id b1 = p"
      "b_tenant_email b1 = me" "b_id b1 \<notin> set (map b_id (bookings_col w))"
    and props: "props_col ?w1 = props_col w"
    by blast
  from assms(3) props have "find_one (\<lambda>d. p_id d = p) (props_col ?w1) = Some pdoc"
    by simp
  from book_property_inserts [OF assms(1,2) this, of m' now3 now4] me
  obtain b2 where second:
      "fst (book_property m' s (Some p) now3 now4 ?w1) = BookingRequested p"
      "bookings_col (snd (book_property m' s (Some p) now3 now4 ?w1)) = bookings_col ?w1 @ [b2]"
      "b_status b2 = PENDING" "b_created_at b2 = now3" "b_property_id b2 = p"
      "b_tenant_email b2 = me" "b_id b2 \<notin> set (map b_id (bookings_col ?w1))"
    by auto
  from second(7) first(2) have "b_id b2 \<noteq> b_id b1" by auto
  with me first second show ?thesis by auto
qed

theorem request_inserts_pending_witness:
  "is_logged_in tina \<and> role_is tina ''tenant'' \<and>
   map b_status (bookings_col (installation [booking_of 1 ''t1@x'' ''Tom'' APPROVED])) = [APPROVED] \<and>
   map b_status (bookings_col (snd (book_property smtp_down tina (Some 1) 30 31
      (installation [booking_of 1 ''t1@x'' ''Tom'' APPROVED])))) = [APPROVED, PENDING] \<and>
   map b_status (bookings_col (snd (book_property no_smtp tina (Some 1) 40 41
      (snd (book_property smtp_down tina (Some 1) 30 31
         (installation [booking_of 1 ''t1@x'' ''Tom'' APPROVED])))))) = [APPROVED, PENDING, PENDING]"
proof -
  let ?w = "installation [booking_of 1 ''t1@x'' ''Tom'' APPROVED]"
  have s: "is_logged_in tina" "role_is tina ''tenant''"
    by (simp_all add: tina_def is_logged_in_def role_is_def)
  have found: "find_one (\<lambda>d. p_id d = 1) (props_col ?w) = Some flat"
    by (simp add: installation_def flat_def)
  have before: "map b_status (bookings_col ?w) = [APPROVED]"
    by (simp add: installation_def booking_of_def)
  from request_inserts_pending [OF s found, of smtp_down 30 31 no_smtp 40 41] before s
  show ?thesis by auto
qed

subsection \<open>The property documents\<close>

lemma same_but_booked_refl: "same_but_booked p p"
  by (simp add: same_but_booked_def)

lemma same_but_booked_update_one:
  "list_all2 same_but_booked ps (update_one P (\<lambda>p. p\<lparr>booked := a, booked_by := c\<rparr>) ps)"
  by (induction ps) (simp_all add: same_but_booked_def list_all2_refl)

lemma handle_props:
  "props_col (snd (handle r w)) = props_col w \<or>
   (\<exists>m s x now p a c. r = ApproveBooking m s x now \<and> fst (handle r w) = BookingApproved p \<and>
      props_col (snd (handle r w)) =
        update_one (\<lambda>d. p_id d = p) (\<lambda>d. d\<lparr>booked := a, booked_by := c\<rparr>) (props_col w))"
proof (cases r)
  case (RequestBooking m s pid now1 now2)
  obtain res w' where run: "book_property m s pid now1 now2 w = (res, w')"
    by (cases "book_property m s pid now1 now2 w")
  from book_property_cases [OF run] have "props_col w' = props_col w" by auto
  with run RequestBooking show ?thesis by simp
next
  case (ApproveBooking m s bid now)
  obtain res w' where run: "owner_approve_request m s bid now w = (res, w')"
    by (cases "owner_approve_request m s bid now w")
  from owner_approve_request_cases [OF run]
  have "props_col w' = props_col w \<or>
    (\<exists>p a c. res = BookingApproved p \<and>
       props_col w' = update_one (\<lambda>d. p_id d = p) (\<lambda>d. d\<lparr>booked := a, booked_by := c\<rparr>) (props_col w))"
    by auto
  with run ApproveBooking show ?thesis by auto
next
  case (RejectBooking m s bid now)
  obtain res w' where run: "owner_reject_request m s bid now w = (res, w')"
    by (cases "owner_reject_request m s bid now w")
  from owner_reject_request_cases [OF run] have "props_col w' = props_col w" by auto
  with run RejectBooking show ?thesis by simp
qed

text \<open>
  Claim C9 (frame of the property documents). Whatever booking request, approval or
  rejection the server handles, the collection of properties keeps its documents in place,
  each equal to what it was in every key but \<^verbatim>\<open>booked\<close> and \<^verbatim>\<open>booked_by\<close>: title,
  description, location, coordinates, price, rooms, owner, images, reviews and the rest. The
  collection changes at all only in a successful approval.
\<close>

theorem property_frame:
  "list_all2 same_but_booked (props_col w) (props_col (snd (handle r w))) \<and>
   (props_col (snd (handle r w)) \<noteq> props_col w \<longrightarrow>
      (\<exists>m s x now p. r = ApproveBooking m s x now \<and> fst (handle r w) = BookingApproved p))"
  using handle_props [of r w]
  by (auto simp add: same_but_booked_update_one list_all2_refl same_but_booked_refl)

theorem property_frame_witness:
  "props_col (snd (handle (ApproveBooking smtp_up olga (Some 1) 50)
      (installation [booking_of 1 ''t1@x'' ''Tom'' PENDING]))) =
     [flat\<lparr>booked := Some True, booked_by := Some ''t1@x''\<rparr>] \<and>
   props_col (snd (handle (ApproveBooking smtp_up olga (Some 1) 50)
      (installation [booking_of 1 ''t1@x'' ''Tom'' PENDING]))) \<noteq>
     props_col (installation [booking_of 1 ''t1@x'' ''Tom'' PENDING]) \<and>
   list_all2 same_but_booked (props_col (installation [booking_of 1 ''t1@x'' ''Tom'' PENDING]))
     (props_col (snd (handle (ApproveBooking smtp_up olga (Some 1) 50)
        (installation [booking_of 1 ''t1@x'' ''Tom'' PENDING])))) \<and>
   fst (handle (ApproveBooking smtp_up olga (Some 1) 50)
      (installation [booking_of 1 ''t1@x'' ''Tom'' PENDING])) = BookingApproved 1"
proof -
  let ?w = "installation [booking_of 1 ''t1@x'' ''Tom'' PENDING]"
  let ?r = "ApproveBooking smtp_up olga (Some 1) 50"
  have after: "props_col (snd (handle ?r ?w)) = [flat\<lparr>booked := Some True, booked_by := Some ''t1@x''\<rparr>]"
    by (simp add: owner_approve_request_def installation_defs Let_def try_send_email_cols)
  have changed: "props_col (snd (handle ?r ?w)) \<noteq> props_col ?w"
    unfolding after by (simp add: installation_def flat_def)
  have ok: "fst (handle ?r ?w) = BookingApproved 1"
    by (simp add: owner_approve_request_def installation_defs Let_def)
  from property_frame [of ?w ?r] after changed ok show ?thesis by blast
qed

subsection \<open>Marking a notification as read\<close>

text \<open>
  Claim C10 does not hold of the code: \<^verbatim>\<open>mark_notification_read\<close> asks for a login and for
  nothing else. The tenant Tina, who is no recipient of the owner's notice, marks it as read.
\<close>

theorem mark_read_by_stranger:
  "recipients request_notice = [''o@x''] \<and> read request_notice = False \<and>
   user_email tina = Some ''t2@x'' \<and>
   fst (mark_notification_read tina (Some 1) (installation [])) = Inr (plain_redirect Url_notifications) \<and>
   notifications_col (snd (mark_notification_read tina (Some 1) (installation []))) =
     [request_notice\<lparr>read := True\<rparr>]"
  by (simp add: mark_notification_read_def installation_defs recipients_def)

end
